theory Spec2Isabelle
  imports Complex_Main
begin

section \<open>The tensor library as the program uses it\<close>

text \<open>
  \<open>googlenet/model.py\<close> builds a computation graph by calling the tensor library and
  then drives a session over it. Every library call adds one operation to the default
  graph and returns a handle to its output; the library infers the static shape of
  that output when the call is made and raises \<open>ValueError\<close> when the shapes do not
  fit. The graph is the list of its operations in creation order, a handle is the
  position of the operation in that list.
\<close>

datatype error = ValueError | IndexError | OpError nat

type_synonym dim = "nat option"

type_synonym tshape = "dim list"

datatype padding = Same | Valid

datatype kind =
    Placeholder string
  | Conv2D nat "nat \<times> nat" "nat \<times> nat" padding
  | MaxPooling2D "nat \<times> nat" "nat \<times> nat" padding
  | AveragePooling2D "nat \<times> nat" "nat \<times> nat" padding
  | LocalResponseNormalization rat rat rat rat
  | Concat nat
  | Flatten
  | Dense nat
  | Dropout rat
  | SoftmaxCrossEntropy
  | ReduceMean
  | Round
  | Equal
  | Cast
  | Minimize rat
  | VariablesInitializer

record node =
  kind :: kind
  args :: "nat list"
  shape :: tshape

type_synonym graph = "node list"

type_synonym 'a build = "graph \<Rightarrow> error + ('a \<times> graph)"

definition then_build :: "'a build \<Rightarrow> ('a \<Rightarrow> 'b build) \<Rightarrow> 'b build" where
  "then_build m f g = (case m g of Inl e \<Rightarrow> Inl e | Inr (a, g') \<Rightarrow> f a g')"

definition add_node :: "kind \<Rightarrow> nat list \<Rightarrow> tshape \<Rightarrow> nat build" where
  "add_node k ins sh g = Inr (length g, g @ [\<lparr>kind = k, args = ins, shape = sh\<rparr>])"

text \<open>A handle that is not an operation of this graph is refused by the library.\<close>

definition tensor_shape :: "graph \<Rightarrow> nat \<Rightarrow> error + tshape" where
  "tensor_shape g t = (if t < length g then Inr (shape (g ! t)) else Inl ValueError)"

text \<open>
  Output size of one spatial dimension of a convolution or pooling window: with
  \<open>'same'\<close> padding \<open>ceil (n / stride)\<close>, with \<open>'valid'\<close> padding
  \<open>ceil ((n - k + 1) / stride)\<close>, an error when the window does not fit. An unknown
  dimension stays unknown.
\<close>

definition window_out :: "padding \<Rightarrow> nat \<Rightarrow> nat \<Rightarrow> dim \<Rightarrow> error + dim" where
  "window_out p k s d =
     (if s = 0 \<or> k = 0 then Inl ValueError
      else case d of
        None \<Rightarrow> Inr None
      | Some n \<Rightarrow>
          (case p of
             Same \<Rightarrow> Inr (Some ((n + s - 1) div s))
           | Valid \<Rightarrow> if n < k then Inl ValueError else Inr (Some ((n - k) div s + 1))))"

definition window_shape ::
  "padding \<Rightarrow> nat \<times> nat \<Rightarrow> nat \<times> nat \<Rightarrow> dim \<Rightarrow> dim \<Rightarrow> error + (dim \<times> dim)" where
  "window_shape p ks st h w =
     (case window_out p (fst ks) (fst st) h of
        Inl e \<Rightarrow> Inl e
      | Inr h' \<Rightarrow>
          (case window_out p (snd ks) (snd st) w of
             Inl e \<Rightarrow> Inl e
           | Inr w' \<Rightarrow> Inr (h', w')))"

text \<open>
  \<open>tf.layers.conv2d\<close>: at least one filter, and a rank 4 input whose channel
  dimension is known and not zero; anything else is refused with \<open>ValueError\<close>.
\<close>

definition conv2d :: "nat \<Rightarrow> nat \<Rightarrow> nat \<times> nat \<Rightarrow> nat \<times> nat \<Rightarrow> padding \<Rightarrow> nat build" where
  "conv2d t filters ks st p g =
     (if filters = 0 then Inl ValueError
      else case tensor_shape g t of
        Inl e \<Rightarrow> Inl e
      | Inr sh \<Rightarrow>
          (case sh of
             [n, h, w, c] \<Rightarrow>
               (if c = None \<or> c = Some 0 then Inl ValueError
                else case window_shape p ks st h w of
                  Inl e \<Rightarrow> Inl e
                | Inr (h', w') \<Rightarrow>
                    add_node (Conv2D filters ks st p) [t] [n, h', w', Some filters] g)
           | _ \<Rightarrow> Inl ValueError))"

definition pool2d ::
  "(nat \<times> nat \<Rightarrow> nat \<times> nat \<Rightarrow> padding \<Rightarrow> kind) \<Rightarrow>
   nat \<Rightarrow> nat \<times> nat \<Rightarrow> nat \<times> nat \<Rightarrow> padding \<Rightarrow> nat build" where
  "pool2d mk t ks st p g =
     (case tensor_shape g t of
        Inl e \<Rightarrow> Inl e
      | Inr sh \<Rightarrow>
          (case sh of
             [n, h, w, c] \<Rightarrow>
               (case window_shape p ks st h w of
                  Inl e \<Rightarrow> Inl e
                | Inr (h', w') \<Rightarrow> add_node (mk ks st p) [t] [n, h', w', c] g)
           | _ \<Rightarrow> Inl ValueError))"

definition max_pooling2d :: "nat \<Rightarrow> nat \<times> nat \<Rightarrow> nat \<times> nat \<Rightarrow> padding \<Rightarrow> nat build" where
  "max_pooling2d = pool2d MaxPooling2D"

definition average_pooling2d :: "nat \<Rightarrow> nat \<times> nat \<Rightarrow> nat \<times> nat \<Rightarrow> padding \<Rightarrow> nat build" where
  "average_pooling2d = pool2d AveragePooling2D"

text \<open>
  \<open>tf.concat\<close>: all inputs have the same rank, the axis is inside it, every other
  dimension agrees where it is known, and the sizes along the axis add up.
\<close>

fun merge_dim :: "dim \<Rightarrow> dim \<Rightarrow> error + dim" where
  "merge_dim None d = Inr d"
| "merge_dim (Some a) None = Inr (Some a)"
| "merge_dim (Some a) (Some b) = (if a = b then Inr (Some a) else Inl ValueError)"

fun add_dim :: "dim \<Rightarrow> dim \<Rightarrow> dim" where
  "add_dim (Some a) (Some b) = Some (a + b)"
| "add_dim _ _ = None"

fun merge_shape :: "tshape \<Rightarrow> tshape \<Rightarrow> error + tshape" where
  "merge_shape [] [] = Inr []"
| "merge_shape (a # as) (b # bs) =
     (case merge_dim a b of
        Inl e \<Rightarrow> Inl e
      | Inr d \<Rightarrow> (case merge_shape as bs of Inl e \<Rightarrow> Inl e | Inr r \<Rightarrow> Inr (d # r)))"
| "merge_shape _ _ = Inl ValueError"

fun concat_shape :: "nat \<Rightarrow> tshape \<Rightarrow> tshape \<Rightarrow> error + tshape" where
  "concat_shape axis (a # as) (b # bs) =
     (case axis of
        0 \<Rightarrow> (case merge_shape as bs of Inl e \<Rightarrow> Inl e | Inr r \<Rightarrow> Inr (add_dim a b # r))
      | Suc k \<Rightarrow>
          (case merge_dim a b of
             Inl e \<Rightarrow> Inl e
           | Inr d \<Rightarrow> (case concat_shape k as bs of Inl e \<Rightarrow> Inl e | Inr r \<Rightarrow> Inr (d # r))))"
| "concat_shape axis _ _ = Inl ValueError"

fun concat_shapes :: "nat \<Rightarrow> tshape \<Rightarrow> tshape list \<Rightarrow> error + tshape" where
  "concat_shapes axis acc [] = Inr acc"
| "concat_shapes axis acc (s # ss) =
     (case concat_shape axis acc s of Inl e \<Rightarrow> Inl e | Inr r \<Rightarrow> concat_shapes axis r ss)"

fun tensor_shapes :: "graph \<Rightarrow> nat list \<Rightarrow> error + tshape list" where
  "tensor_shapes g [] = Inr []"
| "tensor_shapes g (t # ts) =
     (case tensor_shape g t of
        Inl e \<Rightarrow> Inl e
      | Inr s \<Rightarrow> (case tensor_shapes g ts of Inl e \<Rightarrow> Inl e | Inr ss \<Rightarrow> Inr (s # ss)))"

definition concat :: "nat list \<Rightarrow> nat \<Rightarrow> nat build" where
  "concat ts axis g =
     (case tensor_shapes g ts of
        Inl e \<Rightarrow> Inl e
      | Inr [] \<Rightarrow> Inl ValueError
      | Inr (s # ss) \<Rightarrow>
          (case concat_shapes axis s ss of
             Inl e \<Rightarrow> Inl e
           | Inr r \<Rightarrow> add_node (Concat axis) ts r g))"

section \<open>The inception module\<close>

text \<open>\<open>GoogLeNet.inception\<close>, lines 57 to 73: seven library calls in this order.\<close>

definition inception :: "nat \<Rightarrow> nat \<Rightarrow> nat \<Rightarrow> nat \<Rightarrow> nat \<Rightarrow> nat \<Rightarrow> nat \<Rightarrow> nat build" where
  "inception inputs conv_11_size conv_33_reduce_size conv_33_size
             conv_56_reduce_size conv_56_size pool_proj_size =
     then_build (conv2d inputs conv_11_size (1, 1) (1, 1) Same) (\<lambda>conv_11.
     then_build (conv2d inputs conv_33_reduce_size (1, 1) (1, 1) Same) (\<lambda>conv_33_reduce.
     then_build (conv2d conv_33_reduce conv_33_size (3, 3) (1, 1) Same) (\<lambda>conv_33.
     then_build (conv2d inputs conv_56_reduce_size (1, 1) (1, 1) Same) (\<lambda>conv_56_reduce.
     then_build (conv2d conv_56_reduce conv_56_size (5, 5) (1, 1) Same) (\<lambda>conv_56.
     then_build (max_pooling2d inputs (3, 3) (1, 1) Same) (\<lambda>pool.
     then_build (conv2d pool pool_proj_size (1, 1) (1, 1) Same) (\<lambda>conv_pool.
     concat [conv_11, conv_33, conv_56, conv_pool] 3)))))))"

text \<open>
  What the description of the module says about a graph: the operation \<open>out\<close> is a
  concatenation along axis 3 of four tensors, in this order: a 1x1 convolution of \<open>x\<close>;
  a 3x3 convolution of a 1x1 convolution of \<open>x\<close>; a 5x5 convolution of a 1x1
  convolution of \<open>x\<close>; a 1x1 convolution of a 3x3 stride 1 max pooling of \<open>x\<close>;
  all of them with \<open>'same'\<close> padding.
\<close>

definition node_is :: "graph \<Rightarrow> nat \<Rightarrow> kind \<Rightarrow> nat list \<Rightarrow> bool" where
  "node_is g t k ins = (t < length g \<and> kind (g ! t) = k \<and> args (g ! t) = ins)"

definition conv_from :: "graph \<Rightarrow> nat \<Rightarrow> nat \<Rightarrow> nat \<Rightarrow> nat \<Rightarrow> bool" where
  "conv_from g t k filters src = node_is g t (Conv2D filters (k, k) (1, 1) Same) [src]"

definition reduced_conv :: "graph \<Rightarrow> nat \<Rightarrow> nat \<Rightarrow> nat \<Rightarrow> nat \<Rightarrow> nat \<Rightarrow> bool" where
  "reduced_conv g t k filters reduce_filters x =
     (case args (g ! t) of
        [r] \<Rightarrow> conv_from g t k filters r \<and> conv_from g r 1 reduce_filters x
      | _ \<Rightarrow> False)"

definition pooled_conv :: "graph \<Rightarrow> nat \<Rightarrow> nat \<Rightarrow> nat \<Rightarrow> bool" where
  "pooled_conv g t filters x =
     (case args (g ! t) of
        [q] \<Rightarrow> conv_from g t 1 filters q \<and> node_is g q (MaxPooling2D (3, 3) (1, 1) Same) [x]
      | _ \<Rightarrow> False)"

definition four_paths ::
  "graph \<Rightarrow> nat \<Rightarrow> nat \<Rightarrow> nat \<Rightarrow> nat \<Rightarrow> nat \<Rightarrow> nat \<Rightarrow> nat \<Rightarrow> nat \<Rightarrow> bool" where
  "four_paths g out x conv_11_size conv_33_reduce_size conv_33_size
              conv_56_reduce_size conv_56_size pool_proj_size =
     (case args (g ! out) of
        [p1, p2, p3, p4] \<Rightarrow>
          node_is g out (Concat 3) [p1, p2, p3, p4] \<and>
          conv_from g p1 1 conv_11_size x \<and>
          reduced_conv g p2 3 conv_33_size conv_33_reduce_size x \<and>
          reduced_conv g p3 5 conv_56_size conv_56_reduce_size x \<and>
          pooled_conv g p4 pool_proj_size x
      | _ \<Rightarrow> False)"

section \<open>The other library calls of the model\<close>

definition placeholder :: "string \<Rightarrow> tshape \<Rightarrow> nat build" where
  "placeholder name sh = add_node (Placeholder name) [] sh"

definition local_response_normalization :: "nat \<Rightarrow> rat \<Rightarrow> rat \<Rightarrow> rat \<Rightarrow> rat \<Rightarrow> nat build" where
  "local_response_normalization t depth_radius bias alpha beta g =
     (case tensor_shape g t of
        Inl e \<Rightarrow> Inl e
      | Inr sh \<Rightarrow>
          (if length sh = 4
           then add_node (LocalResponseNormalization depth_radius bias alpha beta) [t] sh g
           else Inl ValueError))"

fun prod_dims :: "tshape \<Rightarrow> dim" where
  "prod_dims [] = Some 1"
| "prod_dims (d # ds) =
     (case d of
        None \<Rightarrow> None
      | Some a \<Rightarrow> (case prod_dims ds of None \<Rightarrow> None | Some b \<Rightarrow> Some (a * b)))"

text \<open>\<open>tf.layers.flatten\<close> keeps the batch dimension and multiplies the others.\<close>

definition flatten :: "nat \<Rightarrow> nat build" where
  "flatten t g =
     (case tensor_shape g t of
        Inl e \<Rightarrow> Inl e
      | Inr sh \<Rightarrow>
          (case sh of
             [] \<Rightarrow> Inl ValueError
           | n # ds \<Rightarrow> add_node Flatten [t] [n, prod_dims ds] g))"

text \<open>\<open>tf.layers.dense\<close>: rank at least 2 and a known last dimension, which it replaces.\<close>

definition dense :: "nat \<Rightarrow> nat \<Rightarrow> nat build" where
  "dense t units g =
     (case tensor_shape g t of
        Inl e \<Rightarrow> Inl e
      | Inr sh \<Rightarrow>
          (if length sh < 2 \<or> last sh = None then Inl ValueError
           else add_node (Dense units) [t] (butlast sh @ [Some units]) g))"

text \<open>
  \<open>tf.layers.dropout\<close> is called without \<open>training\<close>, whose default is \<open>False\<close>: the
  operation has the shape of its input.
\<close>

definition dropout :: "nat \<Rightarrow> rat \<Rightarrow> nat build" where
  "dropout t rate g =
     (case tensor_shape g t of
        Inl e \<Rightarrow> Inl e
      | Inr sh \<Rightarrow> add_node (Dropout rate) [t] sh g)"

text \<open>
  Broadcasting of two static shapes, aligned at the last dimension: dimensions agree
  when they are equal or one of them is 1.
\<close>

fun broadcast_dim :: "dim \<Rightarrow> dim \<Rightarrow> error + dim" where
  "broadcast_dim (Some a) (Some b) =
     (if a = b then Inr (Some a)
      else if a = 1 then Inr (Some b)
      else if b = 1 then Inr (Some a)
      else Inl ValueError)"
| "broadcast_dim None (Some b) = Inr (if b = 1 then None else Some b)"
| "broadcast_dim (Some a) None = Inr (if a = 1 then None else Some a)"
| "broadcast_dim None None = Inr None"

fun broadcast_rev :: "tshape \<Rightarrow> tshape \<Rightarrow> error + tshape" where
  "broadcast_rev [] bs = Inr bs"
| "broadcast_rev (a # as) [] = Inr (a # as)"
| "broadcast_rev (a # as) (b # bs) =
     (case broadcast_dim a b of
        Inl e \<Rightarrow> Inl e
      | Inr d \<Rightarrow> (case broadcast_rev as bs of Inl e \<Rightarrow> Inl e | Inr r \<Rightarrow> Inr (d # r)))"

definition broadcast_shape :: "tshape \<Rightarrow> tshape \<Rightarrow> error + tshape" where
  "broadcast_shape a b =
     (case broadcast_rev (rev a) (rev b) of Inl e \<Rightarrow> Inl e | Inr r \<Rightarrow> Inr (rev r))"

text \<open>
  \<open>tf.nn.softmax_cross_entropy_with_logits_v2\<close>: one value for each row of classes,
  so the last dimension goes.
\<close>

definition softmax_cross_entropy_with_logits_v2 :: "nat \<Rightarrow> nat \<Rightarrow> nat build" where
  "softmax_cross_entropy_with_logits_v2 labels logits g =
     (case tensor_shape g labels of
        Inl e \<Rightarrow> Inl e
      | Inr ls \<Rightarrow>
          (case tensor_shape g logits of
             Inl e \<Rightarrow> Inl e
           | Inr gs \<Rightarrow>
               (case broadcast_shape ls gs of
                  Inl e \<Rightarrow> Inl e
                | Inr [] \<Rightarrow> Inl ValueError
                | Inr (d # ds) \<Rightarrow> add_node SoftmaxCrossEntropy [labels, logits] (butlast (d # ds)) g)))"

text \<open>\<open>tf.reduce_mean\<close> without an axis reduces over every dimension to a scalar.\<close>

definition reduce_mean :: "nat \<Rightarrow> nat build" where
  "reduce_mean t g =
     (case tensor_shape g t of
        Inl e \<Rightarrow> Inl e
      | Inr sh \<Rightarrow> add_node ReduceMean [t] [] g)"

definition round_op :: "nat \<Rightarrow> nat build" where
  "round_op t g =
     (case tensor_shape g t of
        Inl e \<Rightarrow> Inl e
      | Inr sh \<Rightarrow> add_node Round [t] sh g)"

definition equal :: "nat \<Rightarrow> nat \<Rightarrow> nat build" where
  "equal a b g =
     (case tensor_shape g a of
        Inl e \<Rightarrow> Inl e
      | Inr sa \<Rightarrow>
          (case tensor_shape g b of
             Inl e \<Rightarrow> Inl e
           | Inr sb \<Rightarrow>
               (case broadcast_shape sa sb of
                  Inl e \<Rightarrow> Inl e
                | Inr sh \<Rightarrow> add_node Equal [a, b] sh g)))"

definition cast :: "nat \<Rightarrow> nat build" where
  "cast t g =
     (case tensor_shape g t of
        Inl e \<Rightarrow> Inl e
      | Inr sh \<Rightarrow> add_node Cast [t] sh g)"

text \<open>
  The operations a tensor is computed from. An operation reads only operations created
  before it, so one pass from the newest operation to the oldest finds them all.
\<close>

fun reach :: "graph \<Rightarrow> nat \<Rightarrow> nat list \<Rightarrow> nat list" where
  "reach g 0 acc = acc"
| "reach g (Suc i) acc = reach g i (if i \<in> set acc then args (g ! i) @ acc else acc)"

definition needed :: "graph \<Rightarrow> nat list \<Rightarrow> nat list" where
  "needed g ts = reach g (length g) ts"

text \<open>The layers that own trainable variables (a kernel and a bias each).\<close>

fun has_variables :: "kind \<Rightarrow> bool" where
  "has_variables (Conv2D f ks st p) = True"
| "has_variables (Dense units) = True"
| "has_variables _ = False"

definition trainable_variables :: "graph \<Rightarrow> nat list" where
  "trainable_variables g = filter (\<lambda>t. has_variables (kind (g ! t))) [0..<length g]"

text \<open>
  \<open>tf.train.AdamOptimizer(learning_rate).minimize(loss)\<close>: the gradient of the loss is
  taken for every trainable variable of the graph; a variable the loss is not computed
  from has no gradient and is left out of the update; the call raises when there is no
  variable or no gradient at all. The training operation reads the loss and updates
  the layers listed after it.
\<close>

definition minimize :: "rat \<Rightarrow> nat \<Rightarrow> nat build" where
  "minimize rate loss g =
     (case tensor_shape g loss of
        Inl e \<Rightarrow> Inl e
      | Inr sh \<Rightarrow>
          (let var_list = trainable_variables g;
               with_gradient = filter (\<lambda>v. v \<in> set (needed g [loss])) var_list
           in if with_gradient = [] then Inl ValueError
              else add_node (Minimize rate) (loss # with_gradient) [] g))"

definition global_variables_initializer :: "nat build" where
  "global_variables_initializer = add_node VariablesInitializer [] []"

section \<open>The model\<close>

text \<open>
  The data sets are arrays of the numerical library: the entries along the first axis
  and the sizes of the other axes.
\<close>

record 'a ndarray =
  items :: "'a list"
  inner :: "nat list"

definition np_shape :: "'a ndarray \<Rightarrow> nat list" where
  "np_shape a = length (items a) # inner a"

definition tuple_get :: "'b list \<Rightarrow> nat \<Rightarrow> error + 'b" where
  "tuple_get xs i = (if i < length xs then Inr (xs ! i) else Inl IndexError)"

record googlenet =
  num_classes :: nat
  self_X :: nat
  self_y :: nat
  learning_rate :: rat
  num_epochs :: int
  batch_size :: int

text \<open>\<open>GoogLeNet.__init__\<close>, lines 13 to 21.\<close>

definition init :: "'a ndarray \<Rightarrow> rat \<Rightarrow> int \<Rightarrow> int \<Rightarrow> googlenet build" where
  "init y_train rate epochs batch g =
     (case tuple_get (np_shape y_train) 1 of
        Inl e \<Rightarrow> Inl e
      | Inr classes \<Rightarrow>
          then_build (placeholder ''image'' [None, Some 224, Some 224, Some 3]) (\<lambda>image.
          then_build (placeholder ''label'' [None, Some classes]) (\<lambda>label.
          (\<lambda>g'. Inr (\<lparr>num_classes = classes, self_X = image, self_y = label,
                       learning_rate = rate, num_epochs = epochs, batch_size = batch\<rparr>, g')))) g)"

text \<open>\<open>GoogLeNet.auxiliary\<close>, lines 88 to 93.\<close>

definition auxiliary :: "googlenet \<Rightarrow> nat \<Rightarrow> nat build" where
  "auxiliary self t =
     then_build (average_pooling2d t (5, 5) (3, 3) Same) (\<lambda>pool.
     then_build (conv2d pool 128 (1, 1) (1, 1) Valid) (\<lambda>conv.
     then_build (flatten conv) (\<lambda>flat.
     then_build (dense flat 1024) (\<lambda>full.
     then_build (dropout full 0.3) (\<lambda>drop.
     dense drop (num_classes self))))))"

text \<open>The tensors and operations of \<open>run\<close> that the rest of \<open>run\<close> refers to.\<close>

record run_ops =
  linear :: nat
  auxiliary_1 :: nat
  auxiliary_2 :: nat
  loss :: nat
  train :: nat
  accuracy :: nat

text \<open>
  \<open>GoogLeNet.run\<close>, lines 142 to 199: forward propagation, backward propagation and
  accuracy, as the source builds them.
\<close>

definition run_graph :: "googlenet \<Rightarrow> run_ops build" where
  "run_graph self =
     then_build (conv2d (self_X self) 64 (7, 7) (2, 2) Same) (\<lambda>conv_1.
     then_build (max_pooling2d conv_1 (3, 3) (2, 2) Same) (\<lambda>pool_1.
     then_build (local_response_normalization pool_1 2 1 0.0002 0.75) (\<lambda>norm_1.
     then_build (conv2d norm_1 64 (1, 1) (1, 1) Same) (\<lambda>conv_2a.
     then_build (conv2d conv_2a 192 (3, 3) (1, 1) Same) (\<lambda>conv_2b.
     then_build (local_response_normalization conv_2b 2 1 0.0002 0.75) (\<lambda>norm_2.
     then_build (max_pooling2d norm_2 (3, 3) (2, 2) Same) (\<lambda>pool_2.
     then_build (inception pool_2 64 96 128 16 32 32) (\<lambda>inception_3a.
     then_build (inception inception_3a 128 128 192 32 96 64) (\<lambda>inception_3b.
     then_build (max_pooling2d inception_3b (3, 3) (2, 2) Same) (\<lambda>pool_3.
     then_build (inception pool_3 192 96 208 16 48 64) (\<lambda>inception_4a.
     then_build (inception inception_4a 160 112 224 24 64 64) (\<lambda>inception_4b.
     then_build (inception inception_4b 128 128 256 24 64 64) (\<lambda>inception_4c.
     then_build (inception inception_4c 112 144 288 32 64 64) (\<lambda>inception_4d.
     then_build (inception inception_4d 256 160 320 32 128 128) (\<lambda>inception_4e.
     then_build (max_pooling2d inception_4e (3, 3) (2, 2) Same) (\<lambda>pool_4.
     then_build (auxiliary self inception_4a) (\<lambda>aux_1.
     then_build (auxiliary self inception_4d) (\<lambda>aux_2.
     then_build (inception pool_4 256 160 320 32 128 128) (\<lambda>inception_5a.
     then_build (inception inception_5a 384 192 384 48 128 128) (\<lambda>inception_5b.
     then_build (average_pooling2d inception_5b (7, 7) (1, 1) Valid) (\<lambda>pool_5.
     then_build (flatten pool_5) (\<lambda>flat_5.
     then_build (dropout flat_5 0.4) (\<lambda>drop_6.
     then_build (dense drop_6 (num_classes self)) (\<lambda>lin.
     then_build (softmax_cross_entropy_with_logits_v2 (self_y self) lin) (\<lambda>cross_entropy.
     then_build (reduce_mean cross_entropy) (\<lambda>los.
     then_build (minimize (learning_rate self) los) (\<lambda>trn.
     then_build (round_op lin) (\<lambda>rounded_linear.
     then_build (round_op (self_y self)) (\<lambda>rounded_y.
     then_build (equal rounded_linear rounded_y) (\<lambda>corrects.
     then_build (cast corrects) (\<lambda>casted.
     then_build (reduce_mean casted) (\<lambda>acc.
     (\<lambda>g. Inr (\<lparr>linear = lin, auxiliary_1 = aux_1, auxiliary_2 = aux_2,
                  loss = los, train = trn, accuracy = acc\<rparr>, g))
     ))))))))))))))))))))))))))))))))"

section \<open>The session and the training loop\<close>

text \<open>
  What happens inside \<open>sess.run\<close> is the library's business (kernels, gradients, device
  placement), so it is a parameter of the model: \<open>execute\<close> receives the operations to
  run, the handles to fetch, the fed arrays and the current values of the variables of
  these operations, and returns the fetched values and the new values of the variables,
  or raises. The model fixes only what the library documents about \<open>Session.run\<close>:
  the fetches and feeds are checked against the graph; only the operations the fetches
  are computed from are run; a placeholder among them must be fed; variables must be
  initialised before they are read; and variables change only when an operation that
  assigns to them (the training operation, the initializer) is run.
\<close>

type_synonym 'a feed = "(nat \<times> 'a ndarray) list"

record ('w, 'a, 'v) runtime =
  initial_values :: "graph \<Rightarrow> error + (nat \<Rightarrow> 'w)"
  execute :: "graph \<Rightarrow> nat list \<Rightarrow> 'a feed \<Rightarrow> 'w list \<Rightarrow> error + ('v list \<times> 'w list)"

text \<open>
  The state of a session: the values of the variables, one per operation that owns
  some (\<open>None\<close> before initialisation), and the \<open>sess.run\<close> calls that returned so far.
\<close>

record ('w, 'a, 'v) call =
  fetched :: "nat list"
  fed :: "'a feed"
  before :: "(nat \<Rightarrow> 'w) option"
  after :: "(nat \<Rightarrow> 'w) option"
  returned :: "'v list"

record ('w, 'a, 'v) session =
  variables :: "(nat \<Rightarrow> 'w) option"
  calls :: "('w, 'a, 'v) call list"

type_synonym ('w, 'a, 'v, 'r) outcome =
  "(error \<times> ('w, 'a, 'v) session) + ('r \<times> ('w, 'a, 'v) session)"

fun compatible :: "nat list \<Rightarrow> tshape \<Rightarrow> bool" where
  "compatible [] [] = True"
| "compatible (n # ns) (d # ds) = ((d = None \<or> d = Some n) \<and> compatible ns ds)"
| "compatible _ _ = False"

definition feed_ok :: "graph \<Rightarrow> 'a feed \<Rightarrow> bool" where
  "feed_ok g feed =
     list_all (\<lambda>(t, a). t < length g \<and> compatible (np_shape a) (shape (g ! t))) feed"

fun is_placeholder :: "kind \<Rightarrow> bool" where
  "is_placeholder (Placeholder name) = True"
| "is_placeholder _ = False"

fun assigns_variables :: "kind \<Rightarrow> bool" where
  "assigns_variables (Minimize rate) = True"
| "assigns_variables _ = False"

text \<open>
  The operations a \<open>sess.run\<close> call runs, in creation order, and the graph made of them
  alone, in which every handle is the position among the operations that are run.
\<close>

definition kept :: "graph \<Rightarrow> nat list \<Rightarrow> nat list" where
  "kept g ts = filter (\<lambda>t. t \<in> set (needed g ts)) [0..<length g]"

definition position :: "nat list \<Rightarrow> nat \<Rightarrow> nat" where
  "position ks t = length (takeWhile (\<lambda>k. k \<noteq> t) ks)"

definition prune :: "graph \<Rightarrow> nat list \<Rightarrow> graph" where
  "prune g ts =
     (let ks = kept g ts
      in map (\<lambda>t. \<lparr>kind = kind (g ! t), args = map (position ks) (args (g ! t)),
                    shape = shape (g ! t)\<rparr>) ks)"

definition write_back :: "nat list \<Rightarrow> 'w list \<Rightarrow> (nat \<Rightarrow> 'w) \<Rightarrow> (nat \<Rightarrow> 'w)" where
  "write_back ks ws vs = fold (\<lambda>(k, w) f. f(k := w)) (zip ks ws) vs"

definition sess_run ::
  "('w, 'a, 'v) runtime \<Rightarrow> graph \<Rightarrow> nat list \<Rightarrow> 'a feed \<Rightarrow> ('w, 'a, 'v) session \<Rightarrow>
   ('w, 'a, 'v, 'v list) outcome" where
  "sess_run rt g fetches feed s =
     (if \<not> list_all (\<lambda>t. t < length g) fetches then Inl (ValueError, s)
      else if \<not> feed_ok g feed then Inl (ValueError, s)
      else
        let ks = kept g fetches
        in if list_ex (\<lambda>t. is_placeholder (kind (g ! t)) \<and> t \<notin> set (map fst feed)) ks
           then Inl (OpError 3, s)
           else if list_ex (\<lambda>t. kind (g ! t) = VariablesInitializer) ks
           then (case initial_values rt g of
                   Inl e \<Rightarrow> Inl (e, s)
                 | Inr vs \<Rightarrow>
                     Inr ([], \<lparr>variables = Some vs,
                               calls = calls s @ [\<lparr>fetched = fetches, fed = feed,
                                 before = variables s, after = Some vs, returned = []\<rparr>]\<rparr>))
           else if variables s = None \<and>
                   list_ex (\<lambda>t. has_variables (kind (g ! t)) \<or> assigns_variables (kind (g ! t))) ks
           then Inl (OpError 9, s)
           else
             (case execute rt (prune g fetches) (map (position ks) fetches)
                     (map (\<lambda>(t, a). (position ks t, a)) (filter (\<lambda>(t, a). t \<in> set ks) feed))
                     (case variables s of None \<Rightarrow> [] | Some vs \<Rightarrow> map vs ks) of
                Inl e \<Rightarrow> Inl (e, s)
              | Inr (vals, ws) \<Rightarrow>
                  (let vars' = (if list_ex (\<lambda>t. assigns_variables (kind (g ! t))) ks
                                then map_option (write_back ks ws) (variables s)
                                else variables s)
                   in Inr (vals, \<lparr>variables = vars',
                                  calls = calls s @ [\<lparr>fetched = fetches, fed = feed,
                                    before = variables s, after = vars', returned = vals\<rparr>]\<rparr>))))"

text \<open>Python's \<open>range(start, stop, step)\<close> and the slice \<open>a[start:stop]\<close> of an array.\<close>

function range_from :: "int \<Rightarrow> int \<Rightarrow> int \<Rightarrow> int list" where
  "range_from i stop step =
     (if (0 < step \<and> i < stop) \<or> (step < 0 \<and> stop < i)
      then i # range_from (i + step) stop step
      else [])"
  by pat_completeness auto
termination
  by (relation "measure (\<lambda>(i, stop, step). nat (if 0 < step then stop - i else i - stop))") auto

definition py_range :: "int \<Rightarrow> int \<Rightarrow> int \<Rightarrow> error + int list" where
  "py_range start stop step = (if step = 0 then Inl ValueError else Inr (range_from start stop step))"

definition slice_index :: "nat \<Rightarrow> int \<Rightarrow> nat" where
  "slice_index n i = nat (min (int n) (max 0 (if i < 0 then i + int n else i)))"

definition py_slice :: "'a ndarray \<Rightarrow> int \<Rightarrow> int \<Rightarrow> 'a ndarray" where
  "py_slice a start stop =
     (let lo = slice_index (length (items a)) start;
          hi = slice_index (length (items a)) stop
      in \<lparr>items = take (hi - lo) (drop lo (items a)), inner = inner a\<rparr>)"

definition py_len :: "'a ndarray \<Rightarrow> int" where
  "py_len a = int (length (items a))"

text \<open>The data sets the module imports from \<open>utils.load_image_net_224x224x3\<close>.\<close>

record 'a datasets =
  X_train :: "'a ndarray"
  X_test :: "'a ndarray"
  X_validation :: "'a ndarray"
  y_train :: "'a ndarray"
  y_test :: "'a ndarray"
  y_validation :: "'a ndarray"

text \<open>
  Lines 214 to 217, the body of the inner loop. The progress line printed when
  \<open>end % 100 == 0\<close> has no effect on the session and is left out.
\<close>

definition train_batch ::
  "('w, 'a, 'v) runtime \<Rightarrow> graph \<Rightarrow> googlenet \<Rightarrow> run_ops \<Rightarrow> 'a datasets \<Rightarrow> int \<Rightarrow>
   ('w, 'a, 'v) session \<Rightarrow> ('w, 'a, 'v, 'v list) outcome" where
  "train_batch rt g self ops d start s =
     (let end' = start + batch_size self;
          batch_X = py_slice (X_train d) start end';
          batch_y = py_slice (y_train d) start end'
      in sess_run rt g [train ops] [(self_X self, batch_X), (self_y self, batch_y)] s)"

text \<open>Lines 213 to 219, the inner loop over the starts of the batches.\<close>

fun train_batches ::
  "('w, 'a, 'v) runtime \<Rightarrow> graph \<Rightarrow> googlenet \<Rightarrow> run_ops \<Rightarrow> 'a datasets \<Rightarrow> int list \<Rightarrow>
   ('w, 'a, 'v) session \<Rightarrow> ('w, 'a, 'v, unit) outcome" where
  "train_batches rt g self ops d [] s = Inr ((), s)"
| "train_batches rt g self ops d (start # starts) s =
     (case train_batch rt g self ops d start s of
        Inl err \<Rightarrow> Inl err
      | Inr (vals, s') \<Rightarrow> train_batches rt g self ops d starts s')"

text \<open>The evaluation of loss and accuracy on a data set, lines 224 to 226 and 236 to 238.\<close>

definition evaluate ::
  "('w, 'a, 'v) runtime \<Rightarrow> graph \<Rightarrow> googlenet \<Rightarrow> run_ops \<Rightarrow> 'a ndarray \<Rightarrow> 'a ndarray \<Rightarrow>
   ('w, 'a, 'v) session \<Rightarrow> ('w, 'a, 'v, 'v list) outcome" where
  "evaluate rt g self ops images labels s =
     sess_run rt g [loss ops, accuracy ops] [(self_X self, images), (self_y self, labels)] s"

text \<open>Lines 212 to 227, the loop over the epochs.\<close>

fun epochs ::
  "('w, 'a, 'v) runtime \<Rightarrow> graph \<Rightarrow> googlenet \<Rightarrow> run_ops \<Rightarrow> 'a datasets \<Rightarrow> int list \<Rightarrow>
   ('w, 'a, 'v) session \<Rightarrow> ('w, 'a, 'v, unit) outcome" where
  "epochs rt g self ops d [] s = Inr ((), s)"
| "epochs rt g self ops d (i # is) s =
     (case py_range 0 (py_len (X_train d)) (batch_size self) of
        Inl e \<Rightarrow> Inl (e, s)
      | Inr starts \<Rightarrow>
          (case train_batches rt g self ops d starts s of
             Inl err \<Rightarrow> Inl err
           | Inr (u, s') \<Rightarrow>
               (case evaluate rt g self ops (X_validation d) (y_validation d) s' of
                  Inl err \<Rightarrow> Inl err
                | Inr (vals, s'') \<Rightarrow> epochs rt g self ops d is s'')))"

text \<open>
  \<open>GoogLeNet.run\<close>: the graph of lines 142 to 199, a new session, the initializer, the
  epochs and the evaluation on the test set. The program calls it on the graph that
  \<open>__init__\<close> has left.
\<close>

definition run ::
  "('w, 'a, 'v) runtime \<Rightarrow> googlenet \<Rightarrow> 'a datasets \<Rightarrow> graph \<Rightarrow> ('w, 'a, 'v, 'v list) outcome" where
  "run rt self d g =
     (let sess = \<lparr>variables = None, calls = []\<rparr>
      in case run_graph self g of
           Inl e \<Rightarrow> Inl (e, sess)
         | Inr (ops, g1) \<Rightarrow>
             (case global_variables_initializer g1 of
                Inl e \<Rightarrow> Inl (e, sess)
              | Inr (init_op, g2) \<Rightarrow>
                  (case sess_run rt g2 [init_op] [] sess of
                     Inl err \<Rightarrow> Inl err
                   | Inr (vals, s1) \<Rightarrow>
                       (case py_range 0 (num_epochs self) 1 of
                          Inl e \<Rightarrow> Inl (e, s1)
                        | Inr is \<Rightarrow>
                            (case epochs rt g2 self ops d is s1 of
                               Inl err \<Rightarrow> Inl err
                             | Inr (u, s2) \<Rightarrow>
                                 evaluate rt g2 self ops (X_test d) (y_test d) s2)))))"

text \<open>The program, lines 244 to 246: \<open>GoogLeNet()\<close> with its defaults, then \<open>run\<close>.\<close>

definition main :: "('w, 'a, 'v) runtime \<Rightarrow> 'a datasets \<Rightarrow> ('w, 'a, 'v, 'v list) outcome" where
  "main rt d =
     (case init (y_train d) 0.001 10 100 [] of
        Inl e \<Rightarrow> Inl (e, \<lparr>variables = None, calls = []\<rparr>)
      | Inr (self, g) \<Rightarrow> run rt self d g)"

section \<open>The graph of the model, written out\<close>

text \<open>
  The operations that \<open>__init__\<close> (the two placeholders) and lines 142 to 199 of
  \<open>run\<close> add to an empty graph, in creation order, for \<open>nc\<close> classes and the
  learning rate \<open>rate\<close>. Lemma \<open>run_graph_nodes\<close> below proves that the calls of the
  source build exactly this list; nothing is proved from this text alone.
\<close>

definition googlenet_graph :: "nat \<Rightarrow> rat \<Rightarrow> graph" where
  "googlenet_graph nc rate =
   [\<lparr>kind = Placeholder ''image'', args = [], shape = [None, Some 224, Some 224, Some 3]\<rparr>,
    \<lparr>kind = Placeholder ''label'', args = [], shape = [None, Some nc]\<rparr>,
    \<lparr>kind = Conv2D 64 (7, 7) (2, 2) Same, args = [0], shape = [None, Some 112, Some 112, Some 64]\<rparr>,
    \<lparr>kind = MaxPooling2D (3, 3) (2, 2) Same, args = [2], shape = [None, Some 56, Some 56, Some 64]\<rparr>,
    \<lparr>kind = LocalResponseNormalization 2 1 0.0002 0.75, args = [3], shape = [None, Some 56, Some 56, Some 64]\<rparr>,
    \<lparr>kind = Conv2D 64 (1, 1) (1, 1) Same, args = [4], shape = [None, Some 56, Some 56, Some 64]\<rparr>,
    \<lparr>kind = Conv2D 192 (3, 3) (1, 1) Same, args = [5], shape = [None, Some 56, Some 56, Some 192]\<rparr>,
    \<lparr>kind = LocalResponseNormalization 2 1 0.0002 0.75, args = [6], shape = [None, Some 56, Some 56, Some 192]\<rparr>,
    \<lparr>kind = MaxPooling2D (3, 3) (2, 2) Same, args = [7], shape = [None, Some 28, Some 28, Some 192]\<rparr>,
    \<lparr>kind = Conv2D 64 (1, 1) (1, 1) Same, args = [8], shape = [None, Some 28, Some 28, Some 64]\<rparr>,
    \<lparr>kind = Conv2D 96 (1, 1) (1, 1) Same, args = [8], shape = [None, Some 28, Some 28, Some 96]\<rparr>,
    \<lparr>kind = Conv2D 128 (3, 3) (1, 1) Same, args = [10], shape = [None, Some 28, Some 28, Some 128]\<rparr>,
    \<lparr>kind = Conv2D 16 (1, 1) (1, 1) Same, args = [8], shape = [None, Some 28, Some 28, Some 16]\<rparr>,
    \<lparr>kind = Conv2D 32 (5, 5) (1, 1) Same, args = [12], shape = [None, Some 28, Some 28, Some 32]\<rparr>,
    \<lparr>kind = MaxPooling2D (3, 3) (1, 1) Same, args = [8], shape = [None, Some 28, Some 28, Some 192]\<rparr>,
    \<lparr>kind = Conv2D 32 (1, 1) (1, 1) Same, args = [14], shape = [None, Some 28, Some 28, Some 32]\<rparr>,
    \<lparr>kind = Concat 3, args = [9, 11, 13, 15], shape = [None, Some 28, Some 28, Some 256]\<rparr>,
    \<lparr>kind = Conv2D 128 (1, 1) (1, 1) Same, args = [16], shape = [None, Some 28, Some 28, Some 128]\<rparr>,
    \<lparr>kind = Conv2D 128 (1, 1) (1, 1) Same, args = [16], shape = [None, Some 28, Some 28, Some 128]\<rparr>,
    \<lparr>kind = Conv2D 192 (3, 3) (1, 1) Same, args = [18], shape = [None, Some 28, Some 28, Some 192]\<rparr>,
    \<lparr>kind = Conv2D 32 (1, 1) (1, 1) Same, args = [16], shape = [None, Some 28, Some 28, Some 32]\<rparr>,
    \<lparr>kind = Conv2D 96 (5, 5) (1, 1) Same, args = [20], shape = [None, Some 28, Some 28, Some 96]\<rparr>,
    \<lparr>kind = MaxPooling2D (3, 3) (1, 1) Same, args = [16], shape = [None, Some 28, Some 28, Some 256]\<rparr>,
    \<lparr>kind = Conv2D 64 (1, 1) (1, 1) Same, args = [22], shape = [None, Some 28, Some 28, Some 64]\<rparr>,
    \<lparr>kind = Concat 3, args = [17, 19, 21, 23], shape = [None, Some 28, Some 28, Some 480]\<rparr>,
    \<lparr>kind = MaxPooling2D (3, 3) (2, 2) Same, args = [24], shape = [None, Some 14, Some 14, Some 480]\<rparr>,
    \<lparr>kind = Conv2D 192 (1, 1) (1, 1) Same, args = [25], shape = [None, Some 14, Some 14, Some 192]\<rparr>,
    \<lparr>kind = Conv2D 96 (1, 1) (1, 1) Same, args = [25], shape = [None, Some 14, Some 14, Some 96]\<rparr>,
    \<lparr>kind = Conv2D 208 (3, 3) (1, 1) Same, args = [27], shape = [None, Some 14, Some 14, Some 208]\<rparr>,
    \<lparr>kind = Conv2D 16 (1, 1) (1, 1) Same, args = [25], shape = [None, Some 14, Some 14, Some 16]\<rparr>,
    \<lparr>kind = Conv2D 48 (5, 5) (1, 1) Same, args = [29], shape = [None, Some 14, Some 14, Some 48]\<rparr>,
    \<lparr>kind = MaxPooling2D (3, 3) (1, 1) Same, args = [25], shape = [None, Some 14, Some 14, Some 480]\<rparr>,
    \<lparr>kind = Conv2D 64 (1, 1) (1, 1) Same, args = [31], shape = [None, Some 14, Some 14, Some 64]\<rparr>,
    \<lparr>kind = Concat 3, args = [26, 28, 30, 32], shape = [None, Some 14, Some 14, Some 512]\<rparr>,
    \<lparr>kind = Conv2D 160 (1, 1) (1, 1) Same, args = [33], shape = [None, Some 14, Some 14, Some 160]\<rparr>,
    \<lparr>kind = Conv2D 112 (1, 1) (1, 1) Same, args = [33], shape = [None, Some 14, Some 14, Some 112]\<rparr>,
    \<lparr>kind = Conv2D 224 (3, 3) (1, 1) Same, args = [35], shape = [None, Some 14, Some 14, Some 224]\<rparr>,
    \<lparr>kind = Conv2D 24 (1, 1) (1, 1) Same, args = [33], shape = [None, Some 14, Some 14, Some 24]\<rparr>,
    \<lparr>kind = Conv2D 64 (5, 5) (1, 1) Same, args = [37], shape = [None, Some 14, Some 14, Some 64]\<rparr>,
    \<lparr>kind = MaxPooling2D (3, 3) (1, 1) Same, args = [33], shape = [None, Some 14, Some 14, Some 512]\<rparr>,
    \<lparr>kind = Conv2D 64 (1, 1) (1, 1) Same, args = [39], shape = [None, Some 14, Some 14, Some 64]\<rparr>,
    \<lparr>kind = Concat 3, args = [34, 36, 38, 40], shape = [None, Some 14, Some 14, Some 512]\<rparr>,
    \<lparr>kind = Conv2D 128 (1, 1) (1, 1) Same, args = [41], shape = [None, Some 14, Some 14, Some 128]\<rparr>,
    \<lparr>kind = Conv2D 128 (1, 1) (1, 1) Same, args = [41], shape = [None, Some 14, Some 14, Some 128]\<rparr>,
    \<lparr>kind = Conv2D 256 (3, 3) (1, 1) Same, args = [43], shape = [None, Some 14, Some 14, Some 256]\<rparr>,
    \<lparr>kind = Conv2D 24 (1, 1) (1, 1) Same, args = [41], shape = [None, Some 14, Some 14, Some 24]\<rparr>,
    \<lparr>kind = Conv2D 64 (5, 5) (1, 1) Same, args = [45], shape = [None, Some 14, Some 14, Some 64]\<rparr>,
    \<lparr>kind = MaxPooling2D (3, 3) (1, 1) Same, args = [41], shape = [None, Some 14, Some 14, Some 512]\<rparr>,
    \<lparr>kind = Conv2D 64 (1, 1) (1, 1) Same, args = [47], shape = [None, Some 14, Some 14, Some 64]\<rparr>,
    \<lparr>kind = Concat 3, args = [42, 44, 46, 48], shape = [None, Some 14, Some 14, Some 512]\<rparr>,
    \<lparr>kind = Conv2D 112 (1, 1) (1, 1) Same, args = [49], shape = [None, Some 14, Some 14, Some 112]\<rparr>,
    \<lparr>kind = Conv2D 144 (1, 1) (1, 1) Same, args = [49], shape = [None, Some 14, Some 14, Some 144]\<rparr>,
    \<lparr>kind = Conv2D 288 (3, 3) (1, 1) Same, args = [51], shape = [None, Some 14, Some 14, Some 288]\<rparr>,
    \<lparr>kind = Conv2D 32 (1, 1) (1, 1) Same, args = [49], shape = [None, Some 14, Some 14, Some 32]\<rparr>,
    \<lparr>kind = Conv2D 64 (5, 5) (1, 1) Same, args = [53], shape = [None, Some 14, Some 14, Some 64]\<rparr>,
    \<lparr>kind = MaxPooling2D (3, 3) (1, 1) Same, args = [49], shape = [None, Some 14, Some 14, Some 512]\<rparr>,
    \<lparr>kind = Conv2D 64 (1, 1) (1, 1) Same, args = [55], shape = [None, Some 14, Some 14, Some 64]\<rparr>,
    \<lparr>kind = Concat 3, args = [50, 52, 54, 56], shape = [None, Some 14, Some 14, Some 528]\<rparr>,
    \<lparr>kind = Conv2D 256 (1, 1) (1, 1) Same, args = [57], shape = [None, Some 14, Some 14, Some 256]\<rparr>,
    \<lparr>kind = Conv2D 160 (1, 1) (1, 1) Same, args = [57], shape = [None, Some 14, Some 14, Some 160]\<rparr>,
    \<lparr>kind = Conv2D 320 (3, 3) (1, 1) Same, args = [59], shape = [None, Some 14, Some 14, Some 320]\<rparr>,
    \<lparr>kind = Conv2D 32 (1, 1) (1, 1) Same, args = [57], shape = [None, Some 14, Some 14, Some 32]\<rparr>,
    \<lparr>kind = Conv2D 128 (5, 5) (1, 1) Same, args = [61], shape = [None, Some 14, Some 14, Some 128]\<rparr>,
    \<lparr>kind = MaxPooling2D (3, 3) (1, 1) Same, args = [57], shape = [None, Some 14, Some 14, Some 528]\<rparr>,
    \<lparr>kind = Conv2D 128 (1, 1) (1, 1) Same, args = [63], shape = [None, Some 14, Some 14, Some 128]\<rparr>,
    \<lparr>kind = Concat 3, args = [58, 60, 62, 64], shape = [None, Some 14, Some 14, Some 832]\<rparr>,
    \<lparr>kind = MaxPooling2D (3, 3) (2, 2) Same, args = [65], shape = [None, Some 7, Some 7, Some 832]\<rparr>,
    \<lparr>kind = AveragePooling2D (5, 5) (3, 3) Same, args = [33], shape = [None, Some 5, Some 5, Some 512]\<rparr>,
    \<lparr>kind = Conv2D 128 (1, 1) (1, 1) Valid, args = [67], shape = [None, Some 5, Some 5, Some 128]\<rparr>,
    \<lparr>kind = Flatten, args = [68], shape = [None, Some 3200]\<rparr>,
    \<lparr>kind = Dense 1024, args = [69], shape = [None, Some 1024]\<rparr>,
    \<lparr>kind = Dropout 0.3, args = [70], shape = [None, Some 1024]\<rparr>,
    \<lparr>kind = Dense nc, args = [71], shape = [None, Some nc]\<rparr>,
    \<lparr>kind = AveragePooling2D (5, 5) (3, 3) Same, args = [57], shape = [None, Some 5, Some 5, Some 528]\<rparr>,
    \<lparr>kind = Conv2D 128 (1, 1) (1, 1) Valid, args = [73], shape = [None, Some 5, Some 5, Some 128]\<rparr>,
    \<lparr>kind = Flatten, args = [74], shape = [None, Some 3200]\<rparr>,
    \<lparr>kind = Dense 1024, args = [75], shape = [None, Some 1024]\<rparr>,
    \<lparr>kind = Dropout 0.3, args = [76], shape = [None, Some 1024]\<rparr>,
    \<lparr>kind = Dense nc, args = [77], shape = [None, Some nc]\<rparr>,
    \<lparr>kind = Conv2D 256 (1, 1) (1, 1) Same, args = [66], shape = [None, Some 7, Some 7, Some 256]\<rparr>,
    \<lparr>kind = Conv2D 160 (1, 1) (1, 1) Same, args = [66], shape = [None, Some 7, Some 7, Some 160]\<rparr>,
    \<lparr>kind = Conv2D 320 (3, 3) (1, 1) Same, args = [80], shape = [None, Some 7, Some 7, Some 320]\<rparr>,
    \<lparr>kind = Conv2D 32 (1, 1) (1, 1) Same, args = [66], shape = [None, Some 7, Some 7, Some 32]\<rparr>,
    \<lparr>kind = Conv2D 128 (5, 5) (1, 1) Same, args = [82], shape = [None, Some 7, Some 7, Some 128]\<rparr>,
    \<lparr>kind = MaxPooling2D (3, 3) (1, 1) Same, args = [66], shape = [None, Some 7, Some 7, Some 832]\<rparr>,
    \<lparr>kind = Conv2D 128 (1, 1) (1, 1) Same, args = [84], shape = [None, Some 7, Some 7, Some 128]\<rparr>,
    \<lparr>kind = Concat 3, args = [79, 81, 83, 85], shape = [None, Some 7, Some 7, Some 832]\<rparr>,
    \<lparr>kind = Conv2D 384 (1, 1) (1, 1) Same, args = [86], shape = [None, Some 7, Some 7, Some 384]\<rparr>,
    \<lparr>kind = Conv2D 192 (1, 1) (1, 1) Same, args = [86], shape = [None, Some 7, Some 7, Some 192]\<rparr>,
    \<lparr>kind = Conv2D 384 (3, 3) (1, 1) Same, args = [88], shape = [None, Some 7, Some 7, Some 384]\<rparr>,
    \<lparr>kind = Conv2D 48 (1, 1) (1, 1) Same, args = [86], shape = [None, Some 7, Some 7, Some 48]\<rparr>,
    \<lparr>kind = Conv2D 128 (5, 5) (1, 1) Same, args = [90], shape = [None, Some 7, Some 7, Some 128]\<rparr>,
    \<lparr>kind = MaxPooling2D (3, 3) (1, 1) Same, args = [86], shape = [None, Some 7, Some 7, Some 832]\<rparr>,
    \<lparr>kind = Conv2D 128 (1, 1) (1, 1) Same, args = [92], shape = [None, Some 7, Some 7, Some 128]\<rparr>,
    \<lparr>kind = Concat 3, args = [87, 89, 91, 93], shape = [None, Some 7, Some 7, Some 1024]\<rparr>,
    \<lparr>kind = AveragePooling2D (7, 7) (1, 1) Valid, args = [94], shape = [None, Some 1, Some 1, Some 1024]\<rparr>,
    \<lparr>kind = Flatten, args = [95], shape = [None, Some 1024]\<rparr>,
    \<lparr>kind = Dropout 0.4, args = [96], shape = [None, Some 1024]\<rparr>,
    \<lparr>kind = Dense nc, args = [97], shape = [None, Some nc]\<rparr>,
    \<lparr>kind = SoftmaxCrossEntropy, args = [1, 98], shape = [None]\<rparr>,
    \<lparr>kind = ReduceMean, args = [99], shape = []\<rparr>,
    \<lparr>kind = Minimize rate, args = [100, 2, 5, 6, 9, 10, 11, 12, 13, 15, 17, 18, 19, 20, 21, 23, 26, 27, 28, 29, 30, 32, 34, 35, 36, 37, 38, 40, 42, 43, 44, 45, 46, 48, 50, 51, 52, 53, 54, 56, 58, 59, 60, 61, 62, 64, 79, 80, 81, 82, 83, 85, 87, 88, 89, 90, 91, 93, 98], shape = []\<rparr>,
    \<lparr>kind = Round, args = [98], shape = [None, Some nc]\<rparr>,
    \<lparr>kind = Round, args = [1], shape = [None, Some nc]\<rparr>,
    \<lparr>kind = Equal, args = [102, 103], shape = [None, Some nc]\<rparr>,
    \<lparr>kind = Cast, args = [104], shape = [None, Some nc]\<rparr>,
    \<lparr>kind = ReduceMean, args = [105], shape = []\<rparr>]"

section \<open>Reading the layers off a graph\<close>

text \<open>
  The description of the network names layers, where an inception module counts as one
  layer. \<open>layers_to g n t\<close> walks from the tensor \<open>t\<close> back to the placeholder it is
  computed from and lists the layers on the way, input first: a concatenation that is
  an inception module (\<open>four_paths\<close>) is one layer and the walk goes on from the input
  of the module; any other operation with one input is a layer by itself. \<open>n\<close> bounds
  the number of steps.
\<close>

datatype layer = Layer kind | Inception nat nat nat nat nat nat

fun filters_of :: "kind \<Rightarrow> nat" where
  "filters_of (Conv2D f ks st p) = f"
| "filters_of _ = 0"

definition first_arg :: "graph \<Rightarrow> nat \<Rightarrow> nat" where
  "first_arg g t = (case args (g ! t) of [] \<Rightarrow> 0 | x # xs \<Rightarrow> x)"

definition inception_at :: "graph \<Rightarrow> nat \<Rightarrow> (nat \<times> layer) option" where
  "inception_at g t =
     (case args (g ! t) of
        [p1, p2, p3, p4] \<Rightarrow>
          (let x = first_arg g p1;
               a = filters_of (kind (g ! p1));
               br = filters_of (kind (g ! first_arg g p2));
               b = filters_of (kind (g ! p2));
               cr = filters_of (kind (g ! first_arg g p3));
               c5 = filters_of (kind (g ! p3));
               pp = filters_of (kind (g ! p4))
           in if four_paths g t x a br b cr c5 pp
              then Some (x, Inception a br b cr c5 pp) else None)
      | _ \<Rightarrow> None)"

fun layers_to :: "graph \<Rightarrow> nat \<Rightarrow> nat \<Rightarrow> layer list option" where
  "layers_to g 0 t = None"
| "layers_to g (Suc n) t =
     (if length g \<le> t then None
      else case inception_at g t of
        Some (x, l) \<Rightarrow> map_option (\<lambda>ls. ls @ [l]) (layers_to g n x)
      | None \<Rightarrow>
          (case args (g ! t) of
             [] \<Rightarrow> Some [Layer (kind (g ! t))]
           | [x] \<Rightarrow> map_option (\<lambda>ls. ls @ [Layer (kind (g ! t))]) (layers_to g n x)
           | _ \<Rightarrow> None))"

section \<open>Facts about the library calls\<close>

lemma tensor_shape_valid: "tensor_shape g t = Inr sh \<Longrightarrow> t < length g"
  by (simp add: tensor_shape_def split: if_splits)

lemma window_same_1: "0 < k \<Longrightarrow> window_out Same k (Suc 0) d = Inr d"
  by (cases d) (simp_all add: window_out_def)

lemma window_shape_same_1:
  "0 < k \<Longrightarrow> 0 < k' \<Longrightarrow> window_shape Same (k, k') (Suc 0, Suc 0) h w = Inr (h, w)"
  by (simp add: window_shape_def window_same_1)

lemma conv2d_same:
  assumes "tensor_shape g t = Inr [n, h, w, Some c]" "0 < c" "0 < f" "0 < k" "0 < k'"
  shows "conv2d t f (k, k') (Suc 0, Suc 0) Same g =
    Inr (length g, g @ [\<lparr>kind = Conv2D f (k, k') (Suc 0, Suc 0) Same, args = [t],
                          shape = [n, h, w, Some f]\<rparr>])"
  using assms by (simp add: conv2d_def window_shape_same_1 add_node_def)

lemma conv2d_raises:
  assumes "\<not> (\<exists>n h w c. tensor_shape g t = Inr [n, h, w, Some c])"
  shows "\<exists>e. conv2d t f ks st p g = Inl e"
  using assms by (auto simp add: conv2d_def split: sum.splits list.splits)

lemma max_pool_same:
  assumes "tensor_shape g t = Inr [n, h, w, c]" "0 < k" "0 < k'"
  shows "max_pooling2d t (k, k') (Suc 0, Suc 0) Same g =
    Inr (length g, g @ [\<lparr>kind = MaxPooling2D (k, k') (Suc 0, Suc 0) Same, args = [t],
                          shape = [n, h, w, c]\<rparr>])"
  using assms by (simp add: max_pooling2d_def pool2d_def window_shape_same_1 add_node_def)

lemma merge_dim_same: "merge_dim d d = Inr d"
  by (cases d) simp_all

lemma concat_shape_channels:
  "concat_shape 3 [n, h, w, Some a] [n, h, w, Some b] = Inr [n, h, w, Some (a + b)]"
  by (simp add: numeral_3_eq_3 merge_dim_same)

lemma concat_four:
  assumes "tensor_shape g p1 = Inr [n, h, w, Some a]" "tensor_shape g p2 = Inr [n, h, w, Some b]"
    "tensor_shape g p3 = Inr [n, h, w, Some c]" "tensor_shape g p4 = Inr [n, h, w, Some d]"
  shows "concat [p1, p2, p3, p4] 3 g =
    Inr (length g, g @ [\<lparr>kind = Concat 3, args = [p1, p2, p3, p4],
                          shape = [n, h, w, Some (a + b + c + d)]\<rparr>])"
  using assms
  by (simp add: concat_def concat_shape_channels add_node_def del: concat_shape.simps)

text \<open>The eight operations an inception call appends to the graph.\<close>

lemma inception_nodes:
  assumes "tensor_shape g x = Inr [n, h, w, Some c]" "0 < c"
    and "0 < a" "0 < br" "0 < b" "0 < cr" "0 < c5" "0 < pp"
  shows "inception x a br b cr c5 pp g = Inr (length g + 7, g @
   [\<lparr>kind = Conv2D a (1, 1) (1, 1) Same, args = [x], shape = [n, h, w, Some a]\<rparr>,
    \<lparr>kind = Conv2D br (1, 1) (1, 1) Same, args = [x], shape = [n, h, w, Some br]\<rparr>,
    \<lparr>kind = Conv2D b (3, 3) (1, 1) Same, args = [length g + 1], shape = [n, h, w, Some b]\<rparr>,
    \<lparr>kind = Conv2D cr (1, 1) (1, 1) Same, args = [x], shape = [n, h, w, Some cr]\<rparr>,
    \<lparr>kind = Conv2D c5 (5, 5) (1, 1) Same, args = [length g + 3], shape = [n, h, w, Some c5]\<rparr>,
    \<lparr>kind = MaxPooling2D (3, 3) (1, 1) Same, args = [x], shape = [n, h, w, Some c]\<rparr>,
    \<lparr>kind = Conv2D pp (1, 1) (1, 1) Same, args = [length g + 5], shape = [n, h, w, Some pp]\<rparr>,
    \<lparr>kind = Concat 3, args = [length g, length g + 2, length g + 4, length g + 6],
       shape = [n, h, w, Some (a + b + c5 + pp)]\<rparr>])"
proof -
  have xl: "x < length g" using assms(1) by (rule tensor_shape_valid)
  show ?thesis
    unfolding inception_def then_build_def
    using assms xl
    by (simp add: conv2d_same max_pool_same concat_four tensor_shape_def nth_append)
qed

lemma inception_raises:
  assumes "\<not> (\<exists>n h w c. tensor_shape g x = Inr [n, h, w, Some c])"
  shows "\<exists>e. inception x a br b cr c5 pp g = Inl e"
proof -
  from conv2d_raises [OF assms] obtain e where "conv2d x a (1, 1) (1, 1) Same g = Inl e"
    by blast
  then show ?thesis by (simp add: inception_def then_build_def)
qed

text \<open>What a call that returned tells about its arguments.\<close>

lemma conv2d_no_filters: "conv2d t 0 ks st p g = Inl ValueError"
  by (simp add: conv2d_def)

lemma conv2d_returned:
  assumes "conv2d t f ks st p g = Inr r"
  shows "0 < f \<and> (\<exists>n h w c. tensor_shape g t = Inr [n, h, w, Some c] \<and> 0 < c)"
  using assms
  by (auto simp add: conv2d_def split: if_splits sum.splits list.splits)

lemma then_build_returned:
  assumes "then_build m f g = Inr r"
  shows "\<exists>a g1. m g = Inr (a, g1) \<and> f a g1 = Inr r"
  using assms by (auto simp add: then_build_def split: sum.splits)

lemma inception_returned:
  assumes "inception x a br b cr c5 pp g = Inr r"
  shows "(\<exists>n h w c. tensor_shape g x = Inr [n, h, w, Some c] \<and> 0 < c) \<and>
         0 < a \<and> 0 < br \<and> 0 < b \<and> 0 < cr \<and> 0 < c5 \<and> 0 < pp"
proof -
  from assms obtain p1 g1 where
    s1: "conv2d x a (1, 1) (1, 1) Same g = Inr (p1, g1)" and
    k1: "then_build (conv2d x br (1, 1) (1, 1) Same) (\<lambda>conv_33_reduce.
         then_build (conv2d conv_33_reduce b (3, 3) (1, 1) Same) (\<lambda>conv_33.
         then_build (conv2d x cr (1, 1) (1, 1) Same) (\<lambda>conv_56_reduce.
         then_build (conv2d conv_56_reduce c5 (5, 5) (1, 1) Same) (\<lambda>conv_56.
         then_build (max_pooling2d x (3, 3) (1, 1) Same) (\<lambda>pool.
         then_build (conv2d pool pp (1, 1) (1, 1) Same) (\<lambda>conv_pool.
         concat [p1, conv_33, conv_56, conv_pool] 3)))))) g1 = Inr r"
    unfolding inception_def by (blast dest: then_build_returned)
  from k1 obtain r2 g2 where
    s2: "conv2d x br (1, 1) (1, 1) Same g1 = Inr (r2, g2)" and
    k2: "then_build (conv2d r2 b (3, 3) (1, 1) Same) (\<lambda>conv_33.
         then_build (conv2d x cr (1, 1) (1, 1) Same) (\<lambda>conv_56_reduce.
         then_build (conv2d conv_56_reduce c5 (5, 5) (1, 1) Same) (\<lambda>conv_56.
         then_build (max_pooling2d x (3, 3) (1, 1) Same) (\<lambda>pool.
         then_build (conv2d pool pp (1, 1) (1, 1) Same) (\<lambda>conv_pool.
         concat [p1, conv_33, conv_56, conv_pool] 3))))) g2 = Inr r"
    by (blast dest: then_build_returned)
  from k2 obtain p2 g3 where
    s3: "conv2d r2 b (3, 3) (1, 1) Same g2 = Inr (p2, g3)" and
    k3: "then_build (conv2d x cr (1, 1) (1, 1) Same) (\<lambda>conv_56_reduce.
         then_build (conv2d conv_56_reduce c5 (5, 5) (1, 1) Same) (\<lambda>conv_56.
         then_build (max_pooling2d x (3, 3) (1, 1) Same) (\<lambda>pool.
         then_build (conv2d pool pp (1, 1) (1, 1) Same) (\<lambda>conv_pool.
         concat [p1, p2, conv_56, conv_pool] 3)))) g3 = Inr r"
    by (blast dest: then_build_returned)
  from k3 obtain r3 g4 where
    s4: "conv2d x cr (1, 1) (1, 1) Same g3 = Inr (r3, g4)" and
    k4: "then_build (conv2d r3 c5 (5, 5) (1, 1) Same) (\<lambda>conv_56.
         then_build (max_pooling2d x (3, 3) (1, 1) Same) (\<lambda>pool.
         then_build (conv2d pool pp (1, 1) (1, 1) Same) (\<lambda>conv_pool.
         concat [p1, p2, conv_56, conv_pool] 3))) g4 = Inr r"
    by (blast dest: then_build_returned)
  from k4 obtain p3 g5 where
    s5: "conv2d r3 c5 (5, 5) (1, 1) Same g4 = Inr (p3, g5)" and
    k5: "then_build (max_pooling2d x (3, 3) (1, 1) Same) (\<lambda>pool.
         then_build (conv2d pool pp (1, 1) (1, 1) Same) (\<lambda>conv_pool.
         concat [p1, p2, p3, conv_pool] 3)) g5 = Inr r"
    by (blast dest: then_build_returned)
  from k5 obtain q g6 where
    s6: "max_pooling2d x (3, 3) (1, 1) Same g5 = Inr (q, g6)" and
    k6: "then_build (conv2d q pp (1, 1) (1, 1) Same) (\<lambda>conv_pool.
         concat [p1, p2, p3, conv_pool] 3) g6 = Inr r"
    by (blast dest: then_build_returned)
  from k6 obtain p4 g7 where
    s7: "conv2d q pp (1, 1) (1, 1) Same g6 = Inr (p4, g7)"
    by (blast dest: then_build_returned)
  from conv2d_returned [OF s1] conv2d_returned [OF s2] conv2d_returned [OF s3]
    conv2d_returned [OF s4] conv2d_returned [OF s5] conv2d_returned [OF s7]
  show ?thesis by blast
qed

section \<open>The inception module: structure and shape\<close>

text \<open>
  C1, as amended. For every input that is a rank 4 tensor with a known, positive number
  of channels and for all six positive sizes, \<open>inception\<close> returns. Whenever it
  returns, on any graph, for any input handle and any sizes, it has left the operations
  already in the graph as they are and the result is a concatenation along axis 3 of the
  four paths, in order: the 1x1 convolution; the 1x1 reduction and the 3x3 convolution;
  the 1x1 reduction and the 5x5 convolution; the 3x3 stride 1 max pooling and the 1x1
  projection, all with \<open>'same'\<close> padding and all reading the same input.
\<close>

theorem inception_concatenates_four_paths:
  "(tensor_shape g x = Inr [n, h, w, Some c] \<and> 0 < c \<and>
    0 < a \<and> 0 < br \<and> 0 < b \<and> 0 < cr \<and> 0 < c5 \<and> 0 < pp \<longrightarrow>
      (\<exists>out g'. inception x a br b cr c5 pp g = Inr (out, g'))) \<and>
   (\<forall>out g'. inception x a br b cr c5 pp g = Inr (out, g') \<longrightarrow>
      take (length g) g' = g \<and> four_paths g' out x a br b cr c5 pp)"
proof (intro conjI impI allI)
  assume "tensor_shape g x = Inr [n, h, w, Some c] \<and> 0 < c \<and>
    0 < a \<and> 0 < br \<and> 0 < b \<and> 0 < cr \<and> 0 < c5 \<and> 0 < pp"
  then show "\<exists>out g'. inception x a br b cr c5 pp g = Inr (out, g')"
    by (simp add: inception_nodes)
next
  fix out g'
  assume r: "inception x a br b cr c5 pp g = Inr (out, g')"
  from inception_returned [OF r] obtain n' h' w' c' where
    sh: "tensor_shape g x = Inr [n', h', w', Some c']" and pos: "0 < c'"
      "0 < a" "0 < br" "0 < b" "0 < cr" "0 < c5" "0 < pp"
    by blast
  have xl: "x < length g" using sh by (rule tensor_shape_valid)
  from r inception_nodes [OF sh pos]
  have out: "out = length g + 7" and g': "g' = g @
   [\<lparr>kind = Conv2D a (1, 1) (1, 1) Same, args = [x], shape = [n', h', w', Some a]\<rparr>,
    \<lparr>kind = Conv2D br (1, 1) (1, 1) Same, args = [x], shape = [n', h', w', Some br]\<rparr>,
    \<lparr>kind = Conv2D b (3, 3) (1, 1) Same, args = [length g + 1], shape = [n', h', w', Some b]\<rparr>,
    \<lparr>kind = Conv2D cr (1, 1) (1, 1) Same, args = [x], shape = [n', h', w', Some cr]\<rparr>,
    \<lparr>kind = Conv2D c5 (5, 5) (1, 1) Same, args = [length g + 3], shape = [n', h', w', Some c5]\<rparr>,
    \<lparr>kind = MaxPooling2D (3, 3) (1, 1) Same, args = [x], shape = [n', h', w', Some c']\<rparr>,
    \<lparr>kind = Conv2D pp (1, 1) (1, 1) Same, args = [length g + 5], shape = [n', h', w', Some pp]\<rparr>,
    \<lparr>kind = Concat 3, args = [length g, length g + 2, length g + 4, length g + 6],
       shape = [n', h', w', Some (a + b + c5 + pp)]\<rparr>]"
    by simp_all
  show "take (length g) g' = g" by (simp add: g')
  show "four_paths g' out x a br b cr c5 pp"
    using xl
    by (simp add: out g' four_paths_def node_is_def conv_from_def reduced_conv_def
        pooled_conv_def nth_append)
qed

theorem inception_concatenates_four_paths_witness:
  "\<exists>out g'. inception 0 64 96 128 16 32 32
       [\<lparr>kind = Placeholder ''image'', args = [], shape = [None, Some 28, Some 28, Some 192]\<rparr>]
     = Inr (out, g') \<and> four_paths g' out 0 64 96 128 16 32 32"
proof -
  let ?g = "[\<lparr>kind = Placeholder ''image'', args = [],
              shape = [None, Some 28, Some 28, Some 192]\<rparr>]"
  have sh: "tensor_shape ?g 0 = Inr [None, Some 28, Some 28, Some 192]"
    by (simp add: tensor_shape_def)
  show ?thesis
    using sh inception_concatenates_four_paths
      [where x = 0 and a = 64 and br = 96 and b = 128 and cr = 16 and ?c5.0 = 32 and pp = 32
         and g = ?g and n = None and h = "Some 28" and w = "Some 28" and c = 192]
    by auto
qed

text \<open>
  The claim as first stated, for all six sizes, fails: with \<open>conv_11_size = 0\<close> the
  first convolution is refused (a convolution layer needs at least one filter), so the
  call raises and returns no concatenation.
\<close>

theorem inception_zero_size_counterexample:
  "inception 0 0 96 128 16 32 32
     [\<lparr>kind = Placeholder ''image'', args = [], shape = [None, Some 28, Some 28, Some 192]\<rparr>]
   = Inl ValueError"
  by (simp add: inception_def then_build_def conv2d_def)



section \<open>The graph that the model builds\<close>

lemma Suc_Suc_0: "Suc (Suc 0) = 2"
  by simp

lemma reach_numeral:
  "reach g (numeral n) acc =
     reach g (pred_numeral n)
       (if pred_numeral n \<in> set acc then args (g ! pred_numeral n) @ acc else acc)"
  by (simp add: numeral_eq_Suc)

lemma init_nodes:
  assumes "inner yt = nc # rest"
  shows "init yt rate ne bs [] =
    Inr (\<lparr>num_classes = nc, self_X = 0, self_y = 1, learning_rate = rate,
           num_epochs = ne, batch_size = bs\<rparr>,
         take 2 (googlenet_graph nc rate))"
  using assms
  by (simp add: init_def np_shape_def tuple_get_def then_build_def placeholder_def add_node_def
      googlenet_graph_def)

lemma init_raises:
  assumes "inner yt = []"
  shows "init yt rate ne bs g = Inl IndexError"
  using assms by (simp add: init_def np_shape_def tuple_get_def)

lemma run_graph_nodes:
  "run_graph \<lparr>num_classes = nc, self_X = 0, self_y = 1, learning_rate = rate,
              num_epochs = ne, batch_size = bs\<rparr> (take 2 (googlenet_graph nc rate)) =
   Inr (\<lparr>linear = 98, auxiliary_1 = 72, auxiliary_2 = 78, loss = 100, train = 101,
          accuracy = 106\<rparr>, googlenet_graph nc rate)"
  unfolding run_graph_def googlenet_graph_def
  by (simp add: then_build_def inception_def auxiliary_def conv2d_def pool2d_def max_pooling2d_def
     average_pooling2d_def window_shape_def window_out_def tensor_shape_def add_node_def
     local_response_normalization_def flatten_def dense_def dropout_def concat_def
     softmax_cross_entropy_with_logits_v2_def broadcast_shape_def reduce_mean_def round_op_def
     equal_def cast_def minimize_def needed_def trainable_variables_def Suc_Suc_0 reach_numeral
     upt_conv_Cons Let_def)

lemma model_nodes:
  assumes "init yt rate ne bs [] = Inr (self, g0)" and "run_graph self g0 = Inr (ops, g)"
  shows "self = \<lparr>num_classes = hd (inner yt), self_X = 0, self_y = 1, learning_rate = rate,
                  num_epochs = ne, batch_size = bs\<rparr> \<and>
         ops = \<lparr>linear = 98, auxiliary_1 = 72, auxiliary_2 = 78, loss = 100, train = 101,
                 accuracy = 106\<rparr> \<and>
         g = googlenet_graph (hd (inner yt)) rate \<and> inner yt \<noteq> []"
proof (cases "inner yt")
  case Nil
  with assms(1) show ?thesis by (simp add: init_raises)
next
  case (Cons nc rest)
  from assms(1) have s: "self = \<lparr>num_classes = nc, self_X = 0, self_y = 1, learning_rate = rate,
           num_epochs = ne, batch_size = bs\<rparr>" and g0: "g0 = take 2 (googlenet_graph nc rate)"
    by (simp_all add: init_nodes [OF Cons])
  from assms(2) run_graph_nodes [of nc rate ne bs]
  have "ops = \<lparr>linear = 98, auxiliary_1 = 72, auxiliary_2 = 78, loss = 100, train = 101,
          accuracy = 106\<rparr> \<and> g = googlenet_graph nc rate"
    unfolding s g0 by simp
  with s Cons show ?thesis by simp
qed

text \<open>The model is built whenever the training labels have a second dimension.\<close>

lemma model_built:
  assumes "inner yt = nc # rest"
  shows "init yt rate ne bs [] =
           Inr (\<lparr>num_classes = nc, self_X = 0, self_y = 1, learning_rate = rate,
                  num_epochs = ne, batch_size = bs\<rparr>, take 2 (googlenet_graph nc rate))"
    and "run_graph \<lparr>num_classes = nc, self_X = 0, self_y = 1, learning_rate = rate,
                    num_epochs = ne, batch_size = bs\<rparr> (take 2 (googlenet_graph nc rate)) =
           Inr (\<lparr>linear = 98, auxiliary_1 = 72, auxiliary_2 = 78, loss = 100, train = 101,
                  accuracy = 106\<rparr>, googlenet_graph nc rate)"
  by (rule init_nodes [OF assms], rule run_graph_nodes)

lemma G_at:
  shows "googlenet_graph nc rate ! 0 =
     \<lparr>kind = Placeholder ''image'', args = [], shape = [None, Some 224, Some 224, Some 3]\<rparr>"
    and "googlenet_graph nc rate ! Suc 0 =
     \<lparr>kind = Placeholder ''label'', args = [], shape = [None, Some nc]\<rparr>"
    and "googlenet_graph nc rate ! 2 =
     \<lparr>kind = Conv2D 64 (7, 7) (2, 2) Same, args = [0], shape = [None, Some 112, Some 112, Some 64]\<rparr>"
    and "googlenet_graph nc rate ! 3 =
     \<lparr>kind = MaxPooling2D (3, 3) (2, 2) Same, args = [2], shape = [None, Some 56, Some 56, Some 64]\<rparr>"
    and "googlenet_graph nc rate ! 4 =
     \<lparr>kind = LocalResponseNormalization 2 1 0.0002 0.75, args = [3], shape = [None, Some 56, Some 56, Some 64]\<rparr>"
    and "googlenet_graph nc rate ! 5 =
     \<lparr>kind = Conv2D 64 (1, 1) (1, 1) Same, args = [4], shape = [None, Some 56, Some 56, Some 64]\<rparr>"
    and "googlenet_graph nc rate ! 6 =
     \<lparr>kind = Conv2D 192 (3, 3) (1, 1) Same, args = [5], shape = [None, Some 56, Some 56, Some 192]\<rparr>"
    and "googlenet_graph nc rate ! 7 =
     \<lparr>kind = LocalResponseNormalization 2 1 0.0002 0.75, args = [6], shape = [None, Some 56, Some 56, Some 192]\<rparr>"
    and "googlenet_graph nc rate ! 8 =
     \<lparr>kind = MaxPooling2D (3, 3) (2, 2) Same, args = [7], shape = [None, Some 28, Some 28, Some 192]\<rparr>"
    and "googlenet_graph nc rate ! 9 =
     \<lparr>kind = Conv2D 64 (1, 1) (1, 1) Same, args = [8], shape = [None, Some 28, Some 28, Some 64]\<rparr>"
    and "googlenet_graph nc rate ! 10 =
     \<lparr>kind = Conv2D 96 (1, 1) (1, 1) Same, args = [8], shape = [None, Some 28, Some 28, Some 96]\<rparr>"
    and "googlenet_graph nc rate ! 11 =
     \<lparr>kind = Conv2D 128 (3, 3) (1, 1) Same, args = [10], shape = [None, Some 28, Some 28, Some 128]\<rparr>"
    and "googlenet_graph nc rate ! 12 =
     \<lparr>kind = Conv2D 16 (1, 1) (1, 1) Same, args = [8], shape = [None, Some 28, Some 28, Some 16]\<rparr>"
    and "googlenet_graph nc rate ! 13 =
     \<lparr>kind = Conv2D 32 (5, 5) (1, 1) Same, args = [12], shape = [None, Some 28, Some 28, Some 32]\<rparr>"
    and "googlenet_graph nc rate ! 14 =
     \<lparr>kind = MaxPooling2D (3, 3) (1, 1) Same, args = [8], shape = [None, Some 28, Some 28, Some 192]\<rparr>"
    and "googlenet_graph nc rate ! 15 =
     \<lparr>kind = Conv2D 32 (1, 1) (1, 1) Same, args = [14], shape = [None, Some 28, Some 28, Some 32]\<rparr>"
    and "googlenet_graph nc rate ! 16 =
     \<lparr>kind = Concat 3, args = [9, 11, 13, 15], shape = [None, Some 28, Some 28, Some 256]\<rparr>"
    and "googlenet_graph nc rate ! 17 =
     \<lparr>kind = Conv2D 128 (1, 1) (1, 1) Same, args = [16], shape = [None, Some 28, Some 28, Some 128]\<rparr>"
    and "googlenet_graph nc rate ! 18 =
     \<lparr>kind = Conv2D 128 (1, 1) (1, 1) Same, args = [16], shape = [None, Some 28, Some 28, Some 128]\<rparr>"
    and "googlenet_graph nc rate ! 19 =
     \<lparr>kind = Conv2D 192 (3, 3) (1, 1) Same, args = [18], shape = [None, Some 28, Some 28, Some 192]\<rparr>"
    and "googlenet_graph nc rate ! 20 =
     \<lparr>kind = Conv2D 32 (1, 1) (1, 1) Same, args = [16], shape = [None, Some 28, Some 28, Some 32]\<rparr>"
    and "googlenet_graph nc rate ! 21 =
     \<lparr>kind = Conv2D 96 (5, 5) (1, 1) Same, args = [20], shape = [None, Some 28, Some 28, Some 96]\<rparr>"
    and "googlenet_graph nc rate ! 22 =
     \<lparr>kind = MaxPooling2D (3, 3) (1, 1) Same, args = [16], shape = [None, Some 28, Some 28, Some 256]\<rparr>"
    and "googlenet_graph nc rate ! 23 =
     \<lparr>kind = Conv2D 64 (1, 1) (1, 1) Same, args = [22], shape = [None, Some 28, Some 28, Some 64]\<rparr>"
    and "googlenet_graph nc rate ! 24 =
     \<lparr>kind = Concat 3, args = [17, 19, 21, 23], shape = [None, Some 28, Some 28, Some 480]\<rparr>"
    and "googlenet_graph nc rate ! 25 =
     \<lparr>kind = MaxPooling2D (3, 3) (2, 2) Same, args = [24], shape = [None, Some 14, Some 14, Some 480]\<rparr>"
    and "googlenet_graph nc rate ! 26 =
     \<lparr>kind = Conv2D 192 (1, 1) (1, 1) Same, args = [25], shape = [None, Some 14, Some 14, Some 192]\<rparr>"
    and "googlenet_graph nc rate ! 27 =
     \<lparr>kind = Conv2D 96 (1, 1) (1, 1) Same, args = [25], shape = [None, Some 14, Some 14, Some 96]\<rparr>"
    and "googlenet_graph nc rate ! 28 =
     \<lparr>kind = Conv2D 208 (3, 3) (1, 1) Same, args = [27], shape = [None, Some 14, Some 14, Some 208]\<rparr>"
    and "googlenet_graph nc rate ! 29 =
     \<lparr>kind = Conv2D 16 (1, 1) (1, 1) Same, args = [25], shape = [None, Some 14, Some 14, Some 16]\<rparr>"
    and "googlenet_graph nc rate ! 30 =
     \<lparr>kind = Conv2D 48 (5, 5) (1, 1) Same, args = [29], shape = [None, Some 14, Some 14, Some 48]\<rparr>"
    and "googlenet_graph nc rate ! 31 =
     \<lparr>kind = MaxPooling2D (3, 3) (1, 1) Same, args = [25], shape = [None, Some 14, Some 14, Some 480]\<rparr>"
    and "googlenet_graph nc rate ! 32 =
     \<lparr>kind = Conv2D 64 (1, 1) (1, 1) Same, args = [31], shape = [None, Some 14, Some 14, Some 64]\<rparr>"
    and "googlenet_graph nc rate ! 33 =
     \<lparr>kind = Concat 3, args = [26, 28, 30, 32], shape = [None, Some 14, Some 14, Some 512]\<rparr>"
    and "googlenet_graph nc rate ! 34 =
     \<lparr>kind = Conv2D 160 (1, 1) (1, 1) Same, args = [33], shape = [None, Some 14, Some 14, Some 160]\<rparr>"
    and "googlenet_graph nc rate ! 35 =
     \<lparr>kind = Conv2D 112 (1, 1) (1, 1) Same, args = [33], shape = [None, Some 14, Some 14, Some 112]\<rparr>"
    and "googlenet_graph nc rate ! 36 =
     \<lparr>kind = Conv2D 224 (3, 3) (1, 1) Same, args = [35], shape = [None, Some 14, Some 14, Some 224]\<rparr>"
    and "googlenet_graph nc rate ! 37 =
     \<lparr>kind = Conv2D 24 (1, 1) (1, 1) Same, args = [33], shape = [None, Some 14, Some 14, Some 24]\<rparr>"
    and "googlenet_graph nc rate ! 38 =
     \<lparr>kind = Conv2D 64 (5, 5) (1, 1) Same, args = [37], shape = [None, Some 14, Some 14, Some 64]\<rparr>"
    and "googlenet_graph nc rate ! 39 =
     \<lparr>kind = MaxPooling2D (3, 3) (1, 1) Same, args = [33], shape = [None, Some 14, Some 14, Some 512]\<rparr>"
    and "googlenet_graph nc rate ! 40 =
     \<lparr>kind = Conv2D 64 (1, 1) (1, 1) Same, args = [39], shape = [None, Some 14, Some 14, Some 64]\<rparr>"
    and "googlenet_graph nc rate ! 41 =
     \<lparr>kind = Concat 3, args = [34, 36, 38, 40], shape = [None, Some 14, Some 14, Some 512]\<rparr>"
    and "googlenet_graph nc rate ! 42 =
     \<lparr>kind = Conv2D 128 (1, 1) (1, 1) Same, args = [41], shape = [None, Some 14, Some 14, Some 128]\<rparr>"
    and "googlenet_graph nc rate ! 43 =
     \<lparr>kind = Conv2D 128 (1, 1) (1, 1) Same, args = [41], shape = [None, Some 14, Some 14, Some 128]\<rparr>"
    and "googlenet_graph nc rate ! 44 =
     \<lparr>kind = Conv2D 256 (3, 3) (1, 1) Same, args = [43], shape = [None, Some 14, Some 14, Some 256]\<rparr>"
    and "googlenet_graph nc rate ! 45 =
     \<lparr>kind = Conv2D 24 (1, 1) (1, 1) Same, args = [41], shape = [None, Some 14, Some 14, Some 24]\<rparr>"
    and "googlenet_graph nc rate ! 46 =
     \<lparr>kind = Conv2D 64 (5, 5) (1, 1) Same, args = [45], shape = [None, Some 14, Some 14, Some 64]\<rparr>"
    and "googlenet_graph nc rate ! 47 =
     \<lparr>kind = MaxPooling2D (3, 3) (1, 1) Same, args = [41], shape = [None, Some 14, Some 14, Some 512]\<rparr>"
    and "googlenet_graph nc rate ! 48 =
     \<lparr>kind = Conv2D 64 (1, 1) (1, 1) Same, args = [47], shape = [None, Some 14, Some 14, Some 64]\<rparr>"
    and "googlenet_graph nc rate ! 49 =
     \<lparr>kind = Concat 3, args = [42, 44, 46, 48], shape = [None, Some 14, Some 14, Some 512]\<rparr>"
    and "googlenet_graph nc rate ! 50 =
     \<lparr>kind = Conv2D 112 (1, 1) (1, 1) Same, args = [49], shape = [None, Some 14, Some 14, Some 112]\<rparr>"
    and "googlenet_graph nc rate ! 51 =
     \<lparr>kind = Conv2D 144 (1, 1) (1, 1) Same, args = [49], shape = [None, Some 14, Some 14, Some 144]\<rparr>"
    and "googlenet_graph nc rate ! 52 =
     \<lparr>kind = Conv2D 288 (3, 3) (1, 1) Same, args = [51], shape = [None, Some 14, Some 14, Some 288]\<rparr>"
    and "googlenet_graph nc rate ! 53 =
     \<lparr>kind = Conv2D 32 (1, 1) (1, 1) Same, args = [49], shape = [None, Some 14, Some 14, Some 32]\<rparr>"
    and "googlenet_graph nc rate ! 54 =
     \<lparr>kind = Conv2D 64 (5, 5) (1, 1) Same, args = [53], shape = [None, Some 14, Some 14, Some 64]\<rparr>"
    and "googlenet_graph nc rate ! 55 =
     \<lparr>kind = MaxPooling2D (3, 3) (1, 1) Same, args = [49], shape = [None, Some 14, Some 14, Some 512]\<rparr>"
    and "googlenet_graph nc rate ! 56 =
     \<lparr>kind = Conv2D 64 (1, 1) (1, 1) Same, args = [55], shape = [None, Some 14, Some 14, Some 64]\<rparr>"
    and "googlenet_graph nc rate ! 57 =
     \<lparr>kind = Concat 3, args = [50, 52, 54, 56], shape = [None, Some 14, Some 14, Some 528]\<rparr>"
    and "googlenet_graph nc rate ! 58 =
     \<lparr>kind = Conv2D 256 (1, 1) (1, 1) Same, args = [57], shape = [None, Some 14, Some 14, Some 256]\<rparr>"
    and "googlenet_graph nc rate ! 59 =
     \<lparr>kind = Conv2D 160 (1, 1) (1, 1) Same, args = [57], shape = [None, Some 14, Some 14, Some 160]\<rparr>"
    and "googlenet_graph nc rate ! 60 =
     \<lparr>kind = Conv2D 320 (3, 3) (1, 1) Same, args = [59], shape = [None, Some 14, Some 14, Some 320]\<rparr>"
    and "googlenet_graph nc rate ! 61 =
     \<lparr>kind = Conv2D 32 (1, 1) (1, 1) Same, args = [57], shape = [None, Some 14, Some 14, Some 32]\<rparr>"
    and "googlenet_graph nc rate ! 62 =
     \<lparr>kind = Conv2D 128 (5, 5) (1, 1) Same, args = [61], shape = [None, Some 14, Some 14, Some 128]\<rparr>"
    and "googlenet_graph nc rate ! 63 =
     \<lparr>kind = MaxPooling2D (3, 3) (1, 1) Same, args = [57], shape = [None, Some 14, Some 14, Some 528]\<rparr>"
    and "googlenet_graph nc rate ! 64 =
     \<lparr>kind = Conv2D 128 (1, 1) (1, 1) Same, args = [63], shape = [None, Some 14, Some 14, Some 128]\<rparr>"
    and "googlenet_graph nc rate ! 65 =
     \<lparr>kind = Concat 3, args = [58, 60, 62, 64], shape = [None, Some 14, Some 14, Some 832]\<rparr>"
    and "googlenet_graph nc rate ! 66 =
     \<lparr>kind = MaxPooling2D (3, 3) (2, 2) Same, args = [65], shape = [None, Some 7, Some 7, Some 832]\<rparr>"
    and "googlenet_graph nc rate ! 67 =
     \<lparr>kind = AveragePooling2D (5, 5) (3, 3) Same, args = [33], shape = [None, Some 5, Some 5, Some 512]\<rparr>"
    and "googlenet_graph nc rate ! 68 =
     \<lparr>kind = Conv2D 128 (1, 1) (1, 1) Valid, args = [67], shape = [None, Some 5, Some 5, Some 128]\<rparr>"
    and "googlenet_graph nc rate ! 69 =
     \<lparr>kind = Flatten, args = [68], shape = [None, Some 3200]\<rparr>"
    and "googlenet_graph nc rate ! 70 =
     \<lparr>kind = Dense 1024, args = [69], shape = [None, Some 1024]\<rparr>"
    and "googlenet_graph nc rate ! 71 =
     \<lparr>kind = Dropout 0.3, args = [70], shape = [None, Some 1024]\<rparr>"
    and "googlenet_graph nc rate ! 72 =
     \<lparr>kind = Dense nc, args = [71], shape = [None, Some nc]\<rparr>"
    and "googlenet_graph nc rate ! 73 =
     \<lparr>kind = AveragePooling2D (5, 5) (3, 3) Same, args = [57], shape = [None, Some 5, Some 5, Some 528]\<rparr>"
    and "googlenet_graph nc rate ! 74 =
     \<lparr>kind = Conv2D 128 (1, 1) (1, 1) Valid, args = [73], shape = [None, Some 5, Some 5, Some 128]\<rparr>"
    and "googlenet_graph nc rate ! 75 =
     \<lparr>kind = Flatten, args = [74], shape = [None, Some 3200]\<rparr>"
    and "googlenet_graph nc rate ! 76 =
     \<lparr>kind = Dense 1024, args = [75], shape = [None, Some 1024]\<rparr>"
    and "googlenet_graph nc rate ! 77 =
     \<lparr>kind = Dropout 0.3, args = [76], shape = [None, Some 1024]\<rparr>"
    and "googlenet_graph nc rate ! 78 =
     \<lparr>kind = Dense nc, args = [77], shape = [None, Some nc]\<rparr>"
    and "googlenet_graph nc rate ! 79 =
     \<lparr>kind = Conv2D 256 (1, 1) (1, 1) Same, args = [66], shape = [None, Some 7, Some 7, Some 256]\<rparr>"
    and "googlenet_graph nc rate ! 80 =
     \<lparr>kind = Conv2D 160 (1, 1) (1, 1) Same, args = [66], shape = [None, Some 7, Some 7, Some 160]\<rparr>"
    and "googlenet_graph nc rate ! 81 =
     \<lparr>kind = Conv2D 320 (3, 3) (1, 1) Same, args = [80], shape = [None, Some 7, Some 7, Some 320]\<rparr>"
    and "googlenet_graph nc rate ! 82 =
     \<lparr>kind = Conv2D 32 (1, 1) (1, 1) Same, args = [66], shape = [None, Some 7, Some 7, Some 32]\<rparr>"
    and "googlenet_graph nc rate ! 83 =
     \<lparr>kind = Conv2D 128 (5, 5) (1, 1) Same, args = [82], shape = [None, Some 7, Some 7, Some 128]\<rparr>"
    and "googlenet_graph nc rate ! 84 =
     \<lparr>kind = MaxPooling2D (3, 3) (1, 1) Same, args = [66], shape = [None, Some 7, Some 7, Some 832]\<rparr>"
    and "googlenet_graph nc rate ! 85 =
     \<lparr>kind = Conv2D 128 (1, 1) (1, 1) Same, args = [84], shape = [None, Some 7, Some 7, Some 128]\<rparr>"
    and "googlenet_graph nc rate ! 86 =
     \<lparr>kind = Concat 3, args = [79, 81, 83, 85], shape = [None, Some 7, Some 7, Some 832]\<rparr>"
    and "googlenet_graph nc rate ! 87 =
     \<lparr>kind = Conv2D 384 (1, 1) (1, 1) Same, args = [86], shape = [None, Some 7, Some 7, Some 384]\<rparr>"
    and "googlenet_graph nc rate ! 88 =
     \<lparr>kind = Conv2D 192 (1, 1) (1, 1) Same, args = [86], shape = [None, Some 7, Some 7, Some 192]\<rparr>"
    and "googlenet_graph nc rate ! 89 =
     \<lparr>kind = Conv2D 384 (3, 3) (1, 1) Same, args = [88], shape = [None, Some 7, Some 7, Some 384]\<rparr>"
    and "googlenet_graph nc rate ! 90 =
     \<lparr>kind = Conv2D 48 (1, 1) (1, 1) Same, args = [86], shape = [None, Some 7, Some 7, Some 48]\<rparr>"
    and "googlenet_graph nc rate ! 91 =
     \<lparr>kind = Conv2D 128 (5, 5) (1, 1) Same, args = [90], shape = [None, Some 7, Some 7, Some 128]\<rparr>"
    and "googlenet_graph nc rate ! 92 =
     \<lparr>kind = MaxPooling2D (3, 3) (1, 1) Same, args = [86], shape = [None, Some 7, Some 7, Some 832]\<rparr>"
    and "googlenet_graph nc rate ! 93 =
     \<lparr>kind = Conv2D 128 (1, 1) (1, 1) Same, args = [92], shape = [None, Some 7, Some 7, Some 128]\<rparr>"
    and "googlenet_graph nc rate ! 94 =
     \<lparr>kind = Concat 3, args = [87, 89, 91, 93], shape = [None, Some 7, Some 7, Some 1024]\<rparr>"
    and "googlenet_graph nc rate ! 95 =
     \<lparr>kind = AveragePooling2D (7, 7) (1, 1) Valid, args = [94], shape = [None, Some 1, Some 1, Some 1024]\<rparr>"
    and "googlenet_graph nc rate ! 96 =
     \<lparr>kind = Flatten, args = [95], shape = [None, Some 1024]\<rparr>"
    and "googlenet_graph nc rate ! 97 =
     \<lparr>kind = Dropout 0.4, args = [96], shape = [None, Some 1024]\<rparr>"
    and "googlenet_graph nc rate ! 98 =
     \<lparr>kind = Dense nc, args = [97], shape = [None, Some nc]\<rparr>"
    and "googlenet_graph nc rate ! 99 =
     \<lparr>kind = SoftmaxCrossEntropy, args = [1, 98], shape = [None]\<rparr>"
    and "googlenet_graph nc rate ! 100 =
     \<lparr>kind = ReduceMean, args = [99], shape = []\<rparr>"
    and "googlenet_graph nc rate ! 101 =
     \<lparr>kind = Minimize rate, args = [100, 2, 5, 6, 9, 10, 11, 12, 13, 15, 17, 18, 19, 20, 21, 23, 26, 27, 28, 29, 30, 32, 34, 35, 36, 37, 38, 40, 42, 43, 44, 45, 46, 48, 50, 51, 52, 53, 54, 56, 58, 59, 60, 61, 62, 64, 79, 80, 81, 82, 83, 85, 87, 88, 89, 90, 91, 93, 98], shape = []\<rparr>"
    and "googlenet_graph nc rate ! 102 =
     \<lparr>kind = Round, args = [98], shape = [None, Some nc]\<rparr>"
    and "googlenet_graph nc rate ! 103 =
     \<lparr>kind = Round, args = [1], shape = [None, Some nc]\<rparr>"
    and "googlenet_graph nc rate ! 104 =
     \<lparr>kind = Equal, args = [102, 103], shape = [None, Some nc]\<rparr>"
    and "googlenet_graph nc rate ! 105 =
     \<lparr>kind = Cast, args = [104], shape = [None, Some nc]\<rparr>"
    and "googlenet_graph nc rate ! 106 =
     \<lparr>kind = ReduceMean, args = [105], shape = []\<rparr>"
  by (simp_all add: googlenet_graph_def)

lemma G_len: "length (googlenet_graph nc rate) = 107"
  by (simp add: googlenet_graph_def)

section \<open>The layers of the graph\<close>

lemma layers_to_numeral:
  "layers_to g (numeral k) t =
     (if length g \<le> t then None
      else case inception_at g t of
        Some (x, l) \<Rightarrow> map_option (\<lambda>ls. ls @ [l]) (layers_to g (pred_numeral k) x)
      | None \<Rightarrow>
          (case args (g ! t) of
             [] \<Rightarrow> Some [Layer (kind (g ! t))]
           | [x] \<Rightarrow> map_option (\<lambda>ls. ls @ [Layer (kind (g ! t))]) (layers_to g (pred_numeral k) x)
           | _ \<Rightarrow> None))"
  by (simp add: numeral_eq_Suc)

lemmas walk = layers_to_numeral inception_at_def four_paths_def node_is_def conv_from_def
  reduced_conv_def pooled_conv_def first_arg_def G_at G_len Let_def

lemma G_main_layers: "layers_to (googlenet_graph nc rate) 107 98 = Some
   [Layer (Placeholder ''image''),
    Layer (Conv2D 64 (7, 7) (2, 2) Same),
    Layer (MaxPooling2D (3, 3) (2, 2) Same),
    Layer (LocalResponseNormalization 2 1 0.0002 0.75),
    Layer (Conv2D 64 (1, 1) (1, 1) Same),
    Layer (Conv2D 192 (3, 3) (1, 1) Same),
    Layer (LocalResponseNormalization 2 1 0.0002 0.75),
    Layer (MaxPooling2D (3, 3) (2, 2) Same),
    Inception 64 96 128 16 32 32,
    Inception 128 128 192 32 96 64,
    Layer (MaxPooling2D (3, 3) (2, 2) Same),
    Inception 192 96 208 16 48 64,
    Inception 160 112 224 24 64 64,
    Inception 128 128 256 24 64 64,
    Inception 112 144 288 32 64 64,
    Inception 256 160 320 32 128 128,
    Layer (MaxPooling2D (3, 3) (2, 2) Same),
    Inception 256 160 320 32 128 128,
    Inception 384 192 384 48 128 128,
    Layer (AveragePooling2D (7, 7) (1, 1) Valid),
    Layer Flatten,
    Layer (Dropout 0.4),
    Layer (Dense nc)]"
  by (simp add: walk)





section \<open>The forward pass\<close>



section \<open>The objective\<close>



section \<open>The interface of the classifier\<close>

text \<open>
  C9. Whenever the model is built, its input \<open>X\<close> is the placeholder \<open>image\<close> of
  static shape (None, 224, 224, 3): an array can be fed to it exactly when its shape is
  (N, 224, 224, 3), for any number N of images. The logits \<open>linear\<close> are the output of
  the final dense layer, computed from \<open>X\<close>, and have the shape (None, num_classes):
  one vector of \<open>num_classes\<close> logits for each image; and \<open>num_classes\<close> is the
  second entry of the shape of \<open>y_train\<close>, its number of columns.
\<close>

theorem classifier_interface:
  assumes "init yt rate ne bs [] = Inr (self, g0)" and "run_graph self g0 = Inr (ops, g)"
  shows "node_is g (self_X self) (Placeholder ''image'') [] \<and>
         tensor_shape g (self_X self) = Inr [None, Some 224, Some 224, Some 3] \<and>
         (\<forall>a :: 'b ndarray. compatible (np_shape a) (shape (g ! self_X self)) = (inner a = [224, 224, 3])) \<and>
         kind (g ! linear ops) = Dense (num_classes self) \<and>
         tensor_shape g (linear ops) = Inr [None, Some (num_classes self)] \<and>
         map_option hd (layers_to g (length g) (linear ops)) = Some (Layer (Placeholder ''image'')) \<and>
         tuple_get (np_shape yt) 1 = Inr (num_classes self)"
proof -
  note m = model_nodes [OF assms]
  from m have g: "g = googlenet_graph (hd (inner yt)) rate"
    and o: "linear ops = 98"
    and s: "num_classes self = hd (inner yt)" "self_X self = 0"
    and y: "inner yt \<noteq> []"
    by simp_all
  have c: "compatible (np_shape a) [None, Some 224, Some 224, Some 3] = (inner a = [224, 224, 3])"
    for a :: "'b ndarray"
  proof (cases "inner a")
    case Nil
    then show ?thesis by (simp add: np_shape_def)
  next
    case (Cons h1 r1)
    note c1 = Cons
    show ?thesis
    proof (cases r1)
      case Nil
      with c1 show ?thesis by (simp add: np_shape_def)
    next
      case (Cons h2 r2)
      note c2 = Cons
      show ?thesis
      proof (cases r2)
        case Nil
        with c1 c2 show ?thesis by (simp add: np_shape_def)
      next
        case (Cons h3 r3)
        with c1 c2 show ?thesis by (cases r3) (auto simp add: np_shape_def)
      qed
    qed
  qed
  have t: "tuple_get (np_shape yt) (Suc 0) = Inr (hd (inner yt))"
    using y by (cases "inner yt") (simp_all add: tuple_get_def np_shape_def)
  show ?thesis
    unfolding g o s G_len G_main_layers
    by (simp add: node_is_def tensor_shape_def G_at G_len c t)
qed

theorem classifier_interface_witness:
  "\<exists>self g0 ops g.
     init \<lparr>items = [()], inner = [1000]\<rparr> 0.001 10 100 [] = Inr (self, g0) \<and>
     run_graph self g0 = Inr (ops, g) \<and>
     tensor_shape g (self_X self) = Inr [None, Some 224, Some 224, Some 3] \<and>
     tensor_shape g (linear ops) = Inr [None, Some (num_classes self)] \<and>
     tuple_get (np_shape \<lparr>items = [()], inner = [1000]\<rparr>) 1 = Inr (num_classes self)"
proof -
  have i: "inner \<lparr>items = [()], inner = [1000]\<rparr> = 1000 # []" by simp
  note b = model_built [OF i, of "0.001" 10 100]
  from b classifier_interface [OF b] show ?thesis by blast
qed

end
